theory Spec2Isabelle
  imports Complex_Main "HOL-Library.Sublist" "HOL-Library.Multiset"
begin

section \<open>JavaScript built-ins used by the handlers\<close>

text \<open>
  Strings are lists of code units below 256 (type \<open>char\<close>); the handlers only trim,
  lower-case, concatenate and compare them.  Numbers are doubles, held as the rationals
  they stand for; the result of \<^verbatim>\<open>Number(s)\<close> on a query string may also be NaN or an
  infinity.  Comparisons of doubles and the sign of a difference of two doubles are
  exact.  The value of a difference is the exact one rounded to a double: that rounding
  is a parameter \<open>fl\<close> of the handler that uses such a value, and the integer that
  \<^verbatim>\<open>parseInt\<close> reads is rounded by \<open>toDouble\<close>.
\<close>

datatype jsnum = NaN | Fin rat | PosInf | NegInf

text \<open>\<^verbatim>\<open>x >= n\<close> and \<open>x <= n\<close> for a finite \<open>x\<close>; every comparison with NaN is false.\<close>

fun num_ge :: "rat \<Rightarrow> jsnum \<Rightarrow> bool" where
  "num_ge x NaN = False"
| "num_ge x (Fin r) = (r \<le> x)"
| "num_ge x PosInf = False"
| "num_ge x NegInf = True"

fun num_le :: "rat \<Rightarrow> jsnum \<Rightarrow> bool" where
  "num_le x NaN = False"
| "num_le x (Fin r) = (x \<le> r)"
| "num_le x PosInf = True"
| "num_le x NegInf = False"

text \<open>White space and line terminators of ECMAScript among the code units below 256:
  TAB, LF, VT, FF, CR, SP and NBSP.\<close>

definition isWhiteSpace :: "char \<Rightarrow> bool" where
  "isWhiteSpace c =
     (c \<in> set [CHR 0x09, CHR 0x0A, CHR 0x0B, CHR 0x0C, CHR 0x0D, CHR 0x20, CHR 0xA0])"

text \<open>\<^verbatim>\<open>String.prototype.trim\<close>: strips white space at both ends.\<close>

definition trim :: "string \<Rightarrow> string" where
  "trim s = rev (dropWhile isWhiteSpace (rev (dropWhile isWhiteSpace s)))"

text \<open>\<^verbatim>\<open>String.prototype.toLowerCase\<close>: A-Z and the Latin-1 capitals U+00C0..U+00DE
  (without the multiplication sign U+00D7) move up by 32; every other code unit below 256
  stays.\<close>

definition toLowerChar :: "char \<Rightarrow> char" where
  "toLowerChar c =
     (let n = (of_char c :: nat) in
      if (65 \<le> n \<and> n \<le> 90) \<or> (192 \<le> n \<and> n \<le> 222 \<and> n \<noteq> 215)
      then char_of (n + 32) else c)"

definition toLowerCase :: "string \<Rightarrow> string" where
  "toLowerCase s = map toLowerChar s"

text \<open>\<^verbatim>\<open>s.includes(q)\<close>: \<open>q\<close> occurs in \<open>s\<close> as a contiguous run.\<close>

definition includes_str :: "string \<Rightarrow> string \<Rightarrow> bool" where
  "includes_str s q = sublist q s"

definition isDigit :: "char \<Rightarrow> bool" where
  "isDigit c = (c \<in> set ''0123456789'')"

definition digitValue :: "char \<Rightarrow> nat" where
  "digitValue c = (of_char c :: nat) - 48"

definition digitsValue :: "string \<Rightarrow> nat" where
  "digitsValue ds = foldl (\<lambda>acc c. 10 * acc + digitValue c) 0 ds"

text \<open>
  The double nearest to a natural number.  Up to \<open>2^53\<close> every natural number is a
  double.  Beyond, \<open>expo n\<close> low bits do not fit into the 53 bits of the significand:
  they are rounded away, to the nearest, a tie going to the even significand.  A result
  of \<open>2^1024\<close> or more is Infinity, which is \<open>None\<close> here.
\<close>

function expo :: "nat \<Rightarrow> nat" where
  "expo n = (if n < 2 ^ 53 then 0 else Suc (expo (n div 2)))"
  by pat_completeness auto
termination
  by (relation "measure (\<lambda>n. n)") auto

definition toDouble :: "nat \<Rightarrow> nat option" where
  "toDouble n =
     (let e = expo n;
          q = n div 2 ^ e;
          r = n mod 2 ^ e;
          m = (if 2 ^ e < 2 * r \<or> (2 * r = 2 ^ e \<and> odd q) then q + 1 else q)
      in if m * 2 ^ e < 2 ^ 1024 then Some (m * 2 ^ e) else None)"

text \<open>
  \<^verbatim>\<open>parseInt(s, 10)\<close>: skip leading white space, read one optional sign, then the longest
  run of decimal digits; whatever follows is ignored.  The outcome is the double nearest
  to the integer read (the conversion is taken to be the correctly rounded one).  No
  digit at that place gives NaN, and a run of digits beyond the doubles gives an
  infinity: both are \<open>None\<close> here, for neither is equal to the id of a listing.
\<close>

definition parseInt :: "string \<Rightarrow> int option" where
  "parseInt s =
     (let S = dropWhile isWhiteSpace s;
          sign = (if S \<noteq> [] \<and> hd S = CHR ''-'' then - 1 else 1 :: int);
          S' = (if S \<noteq> [] \<and> (hd S = CHR ''+'' \<or> hd S = CHR ''-'') then tl S else S);
          Z = takeWhile isDigit S'
      in if Z = [] then None
         else (case toDouble (digitsValue Z) of
                 None \<Rightarrow> None
               | Some m \<Rightarrow> Some (sign * int m)))"

text \<open>
  \<^verbatim>\<open>Array.prototype.sort(cmp)\<close> is a stable sort.  With a comparator that is the difference
  of a numeric key the outcome is determined, and insertion from the right computes it: an
  element goes in front of the first element that does not compare smaller.
\<close>

fun insert_by :: "('a \<Rightarrow> 'a \<Rightarrow> rat) \<Rightarrow> 'a \<Rightarrow> 'a list \<Rightarrow> 'a list" where
  "insert_by cmp x [] = [x]"
| "insert_by cmp x (y # ys) =
     (if cmp x y \<le> 0 then x # y # ys else y # insert_by cmp x ys)"

definition js_sort :: "('a \<Rightarrow> 'a \<Rightarrow> rat) \<Rightarrow> 'a list \<Rightarrow> 'a list" where
  "js_sort cmp xs = foldr (insert_by cmp) xs []"


section \<open>Data model\<close>

text \<open>A listing of the mock dataset.  Optional fields are \<open>None\<close> when the property is
  missing; \<open>created_at\<close> holds the time value of the timestamp in milliseconds.\<close>

record listing =
  id_l :: int
  title :: string
  city :: string
  type_l :: string
  price :: rat
  beds :: "nat option"
  area_m2 :: "rat option"
  address :: "string option"
  created_at :: "int option"

text \<open>The parameter bag of \<open>getListingsList\<close>.  Each entry is a query string or missing
  (\<open>undefined\<close> and \<open>null\<close> are treated alike by every test of the source).\<close>

record filters =
  q :: "string option"
  city_f :: "string option"
  type_f :: "string option"
  minPrice :: "string option"
  maxPrice :: "string option"
  beds_f :: "string option"
  sort_f :: "string option"

record related =
  listingId :: string
  listingCity :: string
  listingType :: string
  relatedInCity :: "listing list"
  relatedByType :: "listing list"
  similarPrice :: "listing list"
  cityStats :: "(string \<times> nat) list option"
  typeStats :: "(string \<times> nat) list option"

text \<open>The JSON bodies the handlers build; the string of the last three is the \<open>source\<close>
  field.\<close>

datatype json =
    ErrorJson string
  | ListingsJson "listing list" string
  | ListingJson listing string
  | RelatedJson related string

record response =
  status :: nat
  body :: json

fun source_of :: "json \<Rightarrow> string option" where
  "source_of (ErrorJson e) = None"
| "source_of (ListingsJson ls s) = Some s"
| "source_of (ListingJson l s) = Some s"
| "source_of (RelatedJson r s) = Some s"

datatype error = TypeError | Failure string

text \<open>
  The Hono context as far as the handlers read it: the decoded query pairs (\<open>None\<close> when
  \<^verbatim>\<open>c.req.query\<close> is not a function), the truthiness of the bindings \<^verbatim>\<open>env.SQL\<close> and
  \<^verbatim>\<open>env.DB\<close>, and \<^verbatim>\<open>env.MOCK_DATA\<close> (\<open>None\<close> when the environment carries no such
  array).
\<close>

record ctx =
  req_query :: "(string \<times> string) list option"
  env_SQL :: bool
  env_DB :: bool
  env_MOCK_DATA :: "listing list option"

type_synonym handler = "ctx \<Rightarrow> error + response"


section \<open>Source selection\<close>

text \<open>\<^verbatim>\<open>c.req.query(key)\<close> and \<^verbatim>\<open>c.req.query()?.key\<close>: the first value of the key.  A
  missing value and \<open>false\<close> are both \<open>None\<close>.\<close>

definition query_key :: "ctx \<Rightarrow> string \<Rightarrow> string option" where
  "query_key c k = (case req_query c of None \<Rightarrow> None | Some ps \<Rightarrow> map_of ps k)"

definition query_all :: "ctx \<Rightarrow> string \<Rightarrow> string option" where
  "query_all c k = (case req_query c of None \<Rightarrow> None | Some ps \<Rightarrow> map_of ps k)"

text \<open>\<^verbatim>\<open>a || b\<close> on values that are a string or missing: the empty string is falsy.\<close>

definition js_or :: "string option \<Rightarrow> string option \<Rightarrow> string option" where
  "js_or a b = (case a of None \<Rightarrow> b | Some s \<Rightarrow> if s = [] then b else Some s)"

definition sourceParam :: "ctx \<Rightarrow> string option" where
  "sourceParam c = js_or (query_key c ''source'') (query_all c ''source'')"

text \<open>What \<open>selectDataSource\<close> does besides returning: the handlers it calls and the line
  it logs, in order.\<close>

datatype event = CalledDb | CalledMock | LoggedError error

definition selectDataSource :: "ctx \<Rightarrow> handler \<Rightarrow> handler \<Rightarrow> event list \<times> (error + response)" where
  "selectDataSource c dbLogic mockLogic =
     (if sourceParam c = Some ''mock'' then ([CalledMock], mockLogic c)
      else if sourceParam c = Some ''db'' then ([CalledDb], dbLogic c)
      else
        let hasDb = (env_SQL c \<or> env_DB c) in
        if \<not> hasDb then ([CalledMock], mockLogic c)
        else (case dbLogic c of
                Inr r \<Rightarrow> ([CalledDb], Inr r)
              | Inl err \<Rightarrow> ([CalledDb, LoggedError err, CalledMock], mockLogic c)))"


section \<open>Mock handlers\<close>

subsection \<open>Listing detail\<close>

definition getListingDetail :: "ctx \<Rightarrow> string \<Rightarrow> error + response" where
  "getListingDetail c listingIdStr =
     (case env_MOCK_DATA c of
        None \<Rightarrow> Inl TypeError
      | Some data \<Rightarrow>
          let listingIdNum = parseInt listingIdStr in
          (case find (\<lambda>x. Some (id_l x) = listingIdNum) data of
             None \<Rightarrow> Inr \<lparr>status = 404, body = ErrorJson ''Listing not found''\<rparr>
           | Some listing \<Rightarrow> Inr \<lparr>status = 200, body = ListingJson listing ''mock''\<rparr>))"

subsection \<open>Counting with a plain object\<close>

text \<open>
  The counters \<^verbatim>\<open>cities\<close> and \<^verbatim>\<open>types\<close> are object literals \<^verbatim>\<open>{}\<close>.  Three facts of
  JavaScript objects shape what \<^verbatim>\<open>Object.entries\<close> returns:
  \<^item> own keys that are array indices (canonical decimal numerals below \<open>2^32 - 1\<close>) come
    first, in ascending numeric order; the other keys follow in creation order;
  \<^item> reading a key that is not an own property finds the properties inherited from
    \<^verbatim>\<open>Object.prototype\<close>, which are functions (or the prototype itself): truthy, and
    \<^verbatim>\<open>+ 1\<close> turns them into a string;
  \<^item> assigning a string to \<^verbatim>\<open>__proto__\<close> calls the inherited setter, which ignores it.
  A property value is a number, or something that is not a number (\<open>NonNum\<close>).
\<close>

datatype jsval = Undefined | Num nat | NonNum

type_synonym jsobject = "(string \<times> jsval) list"

definition objectPrototypeKeys :: "string list" where
  "objectPrototypeKeys =
     [''constructor'', ''__defineGetter__'', ''__defineSetter__'', ''hasOwnProperty'',
      ''__lookupGetter__'', ''__lookupSetter__'', ''isPrototypeOf'', ''propertyIsEnumerable'',
      ''toString'', ''valueOf'', ''__proto__'', ''toLocaleString'']"

definition isArrayIndex :: "string \<Rightarrow> bool" where
  "isArrayIndex k =
     (k \<noteq> [] \<and> list_all isDigit k \<and> (hd k \<noteq> CHR ''0'' \<or> k = ''0'')
      \<and> digitsValue k < 4294967295)"

text \<open>\<^verbatim>\<open>obj[k]\<close>.\<close>

definition obj_get :: "jsobject \<Rightarrow> string \<Rightarrow> jsval" where
  "obj_get obj k =
     (case map_of obj k of
        Some v \<Rightarrow> v
      | None \<Rightarrow> if k \<in> set objectPrototypeKeys then NonNum else Undefined)"

text \<open>Creating an own property: an array index goes in front of the first key that is not
  an array index or is a larger one, any other key goes to the end.\<close>

fun obj_insert :: "string \<Rightarrow> jsval \<Rightarrow> jsobject \<Rightarrow> jsobject" where
  "obj_insert k v [] = [(k, v)]"
| "obj_insert k v ((k', v') # ps) =
     (if isArrayIndex k \<and> (\<not> isArrayIndex k' \<or> digitsValue k < digitsValue k')
      then (k, v) # (k', v') # ps
      else (k', v') # obj_insert k v ps)"

text \<open>\<^verbatim>\<open>obj[k] = v\<close> for a value \<open>v\<close> that is not an object.\<close>

definition obj_set :: "string \<Rightarrow> jsval \<Rightarrow> jsobject \<Rightarrow> jsobject" where
  "obj_set k v obj =
     (if k = ''__proto__'' then obj
      else if k \<in> fst ` set obj then map (\<lambda>(k', v'). if k' = k then (k', v) else (k', v')) obj
      else obj_insert k v obj)"

text \<open>\<^verbatim>\<open>(v || 0) + 1\<close>.\<close>

fun or0_plus1 :: "jsval \<Rightarrow> jsval" where
  "or0_plus1 Undefined = Num 1"
| "or0_plus1 (Num n) = Num (n + 1)"
| "or0_plus1 NonNum = NonNum"

text \<open>One round of the \<^verbatim>\<open>forEach\<close>: \<^verbatim>\<open>obj[k] = (obj[k] || 0) + 1\<close>.\<close>

definition count_key :: "string \<Rightarrow> jsobject \<Rightarrow> jsobject" where
  "count_key k obj = obj_set k (or0_plus1 (obj_get obj k)) obj"

fun entry_count :: "string \<times> jsval \<Rightarrow> (string \<times> nat) option" where
  "entry_count (k, Num n) = Some (k, n)"
| "entry_count (k, v) = None"

text \<open>
  \<^verbatim>\<open>Object.entries(obj).map(...).sort((a, b) => b.count - a.count)\<close> after the counting
  loop over the keys \<open>ks\<close>.  When a count is not a number the comparator yields NaN, and
  the order of the outcome is left open (\<open>None\<close>).
\<close>

definition stats :: "string list \<Rightarrow> (string \<times> nat) list option" where
  "stats ks =
     (case those (map entry_count (fold count_key ks [])) of
        None \<Rightarrow> None
      | Some es \<Rightarrow> Some (js_sort (\<lambda>a b. of_nat (snd b) - of_nat (snd a)) es))"

subsection \<open>Related listings\<close>

text \<open>
  The comparator of the similar-price sort is
  \<^verbatim>\<open>Math.abs(a.price - listing.price) - Math.abs(b.price - listing.price)\<close>.  Each inner
  difference is a double: the exact difference of the two prices, rounded by \<open>fl\<close>, the
  rounding to the nearest double, which is a parameter of the model.  (The differences are taken
  to be finite, as they are between prices that are not negative.)  Of the outer difference the sort only
  takes the sign, which is the sign of the exact difference.
\<close>

definition getRelatedListingData :: "(rat \<Rightarrow> rat) \<Rightarrow> ctx \<Rightarrow> string \<Rightarrow> error + response" where
  "getRelatedListingData fl c listingIdStr =
     (case env_MOCK_DATA c of
        None \<Rightarrow> Inl TypeError
      | Some data \<Rightarrow>
          let listingIdNum = parseInt listingIdStr in
          (case find (\<lambda>x. Some (id_l x) = listingIdNum) data of
             None \<Rightarrow> Inr \<lparr>status = 404, body = ErrorJson ''Listing not found''\<rparr>
           | Some listing \<Rightarrow>
               let listingCity = city listing;
                   listingType = type_l listing;
                   relatedInCity =
                     take 3 (filter (\<lambda>x. city x = listingCity \<and> Some (id_l x) \<noteq> listingIdNum) data);
                   relatedByType =
                     take 3 (filter (\<lambda>x. type_l x = listingType \<and> Some (id_l x) \<noteq> listingIdNum) data);
                   similarPrice =
                     take 3 (js_sort
                       (\<lambda>a b. \<bar>fl (price a - price listing)\<bar> - \<bar>fl (price b - price listing)\<bar>)
                       (filter (\<lambda>x. Some (id_l x) \<noteq> listingIdNum) data));
                   cityStats = stats (map city data);
                   typeStats = stats (map type_l data)
               in Inr \<lparr>status = 200,
                       body = RelatedJson
                         \<lparr>listingId = listingIdStr, listingCity = listingCity,
                          listingType = listingType, relatedInCity = relatedInCity,
                          relatedByType = relatedByType, similarPrice = similarPrice,
                          cityStats = cityStats, typeStats = typeStats\<rparr>
                         ''mock''\<rparr>))"

subsection \<open>Listing search\<close>

text \<open>The text the free-text stage searches:
  \<^verbatim>\<open>`${x.title} ${x.city} ${x.address || ""} ${x.type}`\<close>.\<close>

definition haystack :: "listing \<Rightarrow> string" where
  "haystack x =
     title x @ '' '' @ city x @ '' '' @ (case address x of None \<Rightarrow> [] | Some a \<Rightarrow> a)
       @ '' '' @ type_l x"

text \<open>\<^verbatim>\<open>v !== undefined && v !== null && v !== "" ? Number(v) : null\<close>; \<open>Number\<close> is the
  built-in conversion, a parameter of the model.\<close>

definition numParam :: "(string \<Rightarrow> jsnum) \<Rightarrow> string option \<Rightarrow> jsnum option" where
  "numParam Number v =
     (case v of None \<Rightarrow> None | Some s \<Rightarrow> if s = [] then None else Some (Number s))"

text \<open>A string or missing value in a condition: missing and the empty string are falsy.\<close>

definition truthy :: "string option \<Rightarrow> bool" where
  "truthy v = (case v of None \<Rightarrow> False | Some s \<Rightarrow> s \<noteq> [])"

text \<open>\<^verbatim>\<open>new Date(x.created_at || 0).getTime()\<close> and \<^verbatim>\<open>x.area_m2 || 0\<close>,
  \<^verbatim>\<open>Number(x.beds || 0)\<close>.\<close>

definition createdTime :: "listing \<Rightarrow> rat" where
  "createdTime x = (case created_at x of None \<Rightarrow> 0 | Some t \<Rightarrow> of_int t)"

definition areaOr0 :: "listing \<Rightarrow> rat" where
  "areaOr0 x = (case area_m2 x of None \<Rightarrow> 0 | Some a \<Rightarrow> a)"

definition bedsOr0 :: "listing \<Rightarrow> rat" where
  "bedsOr0 x = (case beds x of None \<Rightarrow> 0 | Some b \<Rightarrow> of_nat b)"

text \<open>\<open>getListingsList\<close> in its two halves: the statements up to the comment
  \<^verbatim>\<open>// Sorting\<close> narrow \<^verbatim>\<open>results\<close>, the \<^verbatim>\<open>switch\<close> after it orders them.\<close>

definition filter_stage :: "(string \<Rightarrow> jsnum) \<Rightarrow> filters \<Rightarrow> listing list \<Rightarrow> listing list" where
  "filter_stage Number filters data =
     (let results = data;
          q' = toLowerCase (trim (case q filters of None \<Rightarrow> [] | Some s \<Rightarrow> s));
          results =
            (if q' \<noteq> []
             then filter (\<lambda>x. includes_str (toLowerCase (haystack x)) q') results
             else results);
          results =
            (if truthy (city_f filters)
             then filter (\<lambda>x. Some (city x) = city_f filters) results else results);
          results =
            (if truthy (type_f filters)
             then filter (\<lambda>x. Some (type_l x) = type_f filters) results else results);
          minPrice' = numParam Number (minPrice filters);
          maxPrice' = numParam Number (maxPrice filters);
          results =
            (case minPrice' of
               Some n \<Rightarrow> if n \<noteq> NaN then filter (\<lambda>x. num_ge (price x) n) results else results
             | None \<Rightarrow> results);
          results =
            (case maxPrice' of
               Some n \<Rightarrow> if n \<noteq> NaN then filter (\<lambda>x. num_le (price x) n) results else results
             | None \<Rightarrow> results);
          beds' = numParam Number (beds_f filters);
          results =
            (case beds' of
               Some n \<Rightarrow> if n \<noteq> NaN then filter (\<lambda>x. num_ge (bedsOr0 x) n) results else results
             | None \<Rightarrow> results)
      in results)"

definition sort_stage :: "filters \<Rightarrow> listing list \<Rightarrow> listing list" where
  "sort_stage filters results =
     (if sort_f filters = Some ''price_asc''
        then js_sort (\<lambda>a b. price a - price b) results
      else if sort_f filters = Some ''price_desc''
        then js_sort (\<lambda>a b. price b - price a) results
      else if sort_f filters = Some ''area_desc''
        then js_sort (\<lambda>a b. areaOr0 b - areaOr0 a) results
      else if sort_f filters = Some ''newest''
        then js_sort (\<lambda>a b. createdTime b - createdTime a) results
      else results)"

definition getListingsList :: "(string \<Rightarrow> jsnum) \<Rightarrow> ctx \<Rightarrow> filters \<Rightarrow> error + response" where
  "getListingsList Number c filters =
     (case env_MOCK_DATA c of
        None \<Rightarrow> Inl TypeError
      | Some data \<Rightarrow>
          let results = sort_stage filters (filter_stage Number filters data)
          in Inr \<lparr>status = 200, body = ListingsJson results ''mock''\<rparr>)"

subsection \<open>The closures the routes pass to \<open>selectDataSource\<close>\<close>

definition listingsRoute_mockLogic :: "(string \<Rightarrow> jsnum) \<Rightarrow> filters \<Rightarrow> handler" where
  "listingsRoute_mockLogic Number filters c2 = getListingsList Number c2 filters"

definition detailRoute_mockLogic :: "string \<Rightarrow> handler" where
  "detailRoute_mockLogic idParam c2 = getListingDetail c2 idParam"

definition relatedRoute_mockLogic :: "(rat \<Rightarrow> rat) \<Rightarrow> string \<Rightarrow> handler" where
  "relatedRoute_mockLogic fl idParam c2 = getRelatedListingData fl c2 idParam"


section \<open>The handlers on a store of arrays\<close>

text \<open>
  \<^verbatim>\<open>sort\<close> reorders the array it is called on, while the spread, \<^verbatim>\<open>filter\<close> and
  \<^verbatim>\<open>slice\<close> build a new array.  To see which array each statement touches, the arrays live
  in a store; an address is an index into it, and a new array is put at the end.  The
  listings themselves are never assigned to.
\<close>

type_synonym addr = nat
type_synonym store = "listing list list"

definition alloc :: "listing list \<Rightarrow> store \<Rightarrow> addr \<times> store" where
  "alloc xs st = (length st, st @ [xs])"

definition array_spread :: "addr \<Rightarrow> store \<Rightarrow> addr \<times> store" where
  "array_spread a st = alloc (st ! a) st"

definition array_filter :: "(listing \<Rightarrow> bool) \<Rightarrow> addr \<Rightarrow> store \<Rightarrow> addr \<times> store" where
  "array_filter P a st = alloc (filter P (st ! a)) st"

definition array_slice3 :: "addr \<Rightarrow> store \<Rightarrow> addr \<times> store" where
  "array_slice3 a st = alloc (take 3 (st ! a)) st"

definition array_sort :: "(listing \<Rightarrow> listing \<Rightarrow> rat) \<Rightarrow> addr \<Rightarrow> store \<Rightarrow> addr \<times> store" where
  "array_sort cmp a st = (a, st[a := js_sort cmp (st ! a)])"

text \<open>The statements of \<open>getListingsList\<close> on the store; \<open>mock\<close> is the address of
  \<^verbatim>\<open>c.env.MOCK_DATA\<close>, an array of the store (\<open>mock < length st0\<close>).  The outcome is the
  address of \<^verbatim>\<open>results\<close> when the response is built, and the store at that time.\<close>

definition getListingsList_st :: "(string \<Rightarrow> jsnum) \<Rightarrow> filters \<Rightarrow> addr \<Rightarrow> store \<Rightarrow> addr \<times> store" where
  "getListingsList_st Number filters mock st0 =
     (let (results, st) = array_spread mock st0;
          q' = toLowerCase (trim (case q filters of None \<Rightarrow> [] | Some s \<Rightarrow> s));
          (results, st) =
            (if q' \<noteq> []
             then array_filter (\<lambda>x. includes_str (toLowerCase (haystack x)) q') results st
             else (results, st));
          (results, st) =
            (if truthy (city_f filters)
             then array_filter (\<lambda>x. Some (city x) = city_f filters) results st
             else (results, st));
          (results, st) =
            (if truthy (type_f filters)
             then array_filter (\<lambda>x. Some (type_l x) = type_f filters) results st
             else (results, st));
          minPrice' = numParam Number (minPrice filters);
          maxPrice' = numParam Number (maxPrice filters);
          (results, st) =
            (case minPrice' of
               Some n \<Rightarrow> if n \<noteq> NaN then array_filter (\<lambda>x. num_ge (price x) n) results st
                         else (results, st)
             | None \<Rightarrow> (results, st));
          (results, st) =
            (case maxPrice' of
               Some n \<Rightarrow> if n \<noteq> NaN then array_filter (\<lambda>x. num_le (price x) n) results st
                         else (results, st)
             | None \<Rightarrow> (results, st));
          beds' = numParam Number (beds_f filters);
          (results, st) =
            (case beds' of
               Some n \<Rightarrow> if n \<noteq> NaN then array_filter (\<lambda>x. num_ge (bedsOr0 x) n) results st
                         else (results, st)
             | None \<Rightarrow> (results, st))
      in
        if sort_f filters = Some ''price_asc''
          then array_sort (\<lambda>a b. price a - price b) results st
        else if sort_f filters = Some ''price_desc''
          then array_sort (\<lambda>a b. price b - price a) results st
        else if sort_f filters = Some ''area_desc''
          then array_sort (\<lambda>a b. areaOr0 b - areaOr0 a) results st
        else if sort_f filters = Some ''newest''
          then array_sort (\<lambda>a b. createdTime b - createdTime a) results st
        else (results, st))"

text \<open>The three array computations of \<open>getRelatedListingData\<close> on the store, for the
  listing found; the counting loops only read the collection and build objects of their
  own.  The outcome holds the addresses of \<^verbatim>\<open>relatedInCity\<close>, \<^verbatim>\<open>relatedByType\<close> and
  \<^verbatim>\<open>similarPrice\<close>.\<close>

definition getRelatedListingData_st ::
    "(rat \<Rightarrow> rat) \<Rightarrow> int option \<Rightarrow> listing \<Rightarrow> addr \<Rightarrow> store
      \<Rightarrow> (addr \<times> addr \<times> addr) \<times> store" where
  "getRelatedListingData_st fl listingIdNum listing mock st0 =
     (let listingCity = city listing;
          listingType = type_l listing;
          (a, st) = array_filter (\<lambda>x. city x = listingCity \<and> Some (id_l x) \<noteq> listingIdNum) mock st0;
          (relatedInCity, st) = array_slice3 a st;
          (a, st) = array_filter (\<lambda>x. type_l x = listingType \<and> Some (id_l x) \<noteq> listingIdNum) mock st;
          (relatedByType, st) = array_slice3 a st;
          (a, st) = array_filter (\<lambda>x. Some (id_l x) \<noteq> listingIdNum) mock st;
          (a, st) = array_sort
                      (\<lambda>a b. \<bar>fl (price a - price listing)\<bar> - \<bar>fl (price b - price listing)\<bar>)
                      a st;
          (similarPrice, st) = array_slice3 a st
      in ((relatedInCity, relatedByType, similarPrice), st))"


text \<open>What a statement leaves behind, relative to the store \<open>st0\<close> a handler started
  with: the arrays of \<open>st0\<close> are as they were, and the array \<open>xs\<close> sits at an address
  that \<open>st0\<close> did not have.\<close>

definition fresh_view :: "store \<Rightarrow> listing list \<Rightarrow> addr \<times> store \<Rightarrow> bool" where
  "fresh_view st0 xs p =
     (take (length st0) (snd p) = st0 \<and> length st0 \<le> fst p \<and> fst p < length (snd p)
      \<and> snd p ! fst p = xs)"


section \<open>Notions of the specification\<close>

text \<open>The distinct elements of a list in the order of their first occurrence.\<close>

definition firstOccurrences :: "'a list \<Rightarrow> 'a list" where
  "firstOccurrences xs = rev (remdups (rev xs))"

text \<open>The statistics as the specification words them: one pair for every distinct key,
  holding the number of its occurrences, in descending order of the count, with equal
  counts in the order of first occurrence.\<close>

definition spec_stats :: "string list \<Rightarrow> (string \<times> nat) list" where
  "spec_stats ks =
     sort_key (\<lambda>e. - int (snd e)) (map (\<lambda>k. (k, count_list ks k)) (firstOccurrences ks))"

text \<open>A numeric input as the specification words it, read strictly: the whole string is an
  optionally signed run of decimal digits.\<close>

definition spec_numeric :: "string \<Rightarrow> bool" where
  "spec_numeric s =
     (case s of
        [] \<Rightarrow> False
      | c # r \<Rightarrow> if c = CHR ''-'' \<or> c = CHR ''+'' then r \<noteq> [] \<and> list_all isDigit r
                 else list_all isDigit s)"

text \<open>The similar-price list as the specification words it: the first three of the
  listings with another id than \<open>n\<close>, in ascending order of the absolute difference of
  their price from the price of the target \<open>t\<close>, equal differences in the order of the
  collection.\<close>

definition spec_similarPrice :: "listing \<Rightarrow> int \<Rightarrow> listing list \<Rightarrow> listing list" where
  "spec_similarPrice t n data =
     take 3 (sort_key (\<lambda>x. \<bar>price x - price t\<bar>) (filter (\<lambda>x. id_l x \<noteq> n) data))"

text \<open>The free text as the specification words it: the plain concatenation of the four
  fields.\<close>

definition spec_concat :: "listing \<Rightarrow> string" where
  "spec_concat x =
     title x @ city x @ (case address x of None \<Rightarrow> [] | Some a \<Rightarrow> a) @ type_l x"


section \<open>Concrete inputs\<close>

text \<open>An instance of the conversion \<^verbatim>\<open>Number\<close> for the strings used below: white space
  around an optionally signed run of decimal digits gives that integer, the empty or
  blank string gives 0, and a string of any other shape met below is not a number.\<close>

definition decimalNumber :: "string \<Rightarrow> jsnum" where
  "decimalNumber s =
     (let t = trim s;
          neg = (t \<noteq> [] \<and> hd t = CHR ''-'');
          ds = (if t \<noteq> [] \<and> (hd t = CHR ''+'' \<or> hd t = CHR ''-'') then tl t else t)
      in if t = [] then Fin 0
         else if ds \<noteq> [] \<and> list_all isDigit ds
           then Fin (if neg then - of_nat (digitsValue ds) else of_nat (digitsValue ds))
         else NaN)"

text \<open>An instance of the rounding \<open>fl\<close> for the differences met below, which are
  integers of a finite double: an integer is rounded by \<open>toDouble\<close>, its sign kept.  Any
  other argument is left as it is; none occurs below.\<close>

definition intDouble :: "rat \<Rightarrow> rat" where
  "intDouble x =
     (let n = \<lfloor>x\<rfloor> in
      if of_int n = x
      then (case toDouble (nat \<bar>n\<bar>) of
              Some m \<Rightarrow> if n < 0 then - of_nat m else of_nat m
            | None \<Rightarrow> x)
      else x)"

definition mkListing :: "int \<Rightarrow> string \<Rightarrow> string \<Rightarrow> string \<Rightarrow> rat \<Rightarrow> listing" where
  "mkListing i t c ty p =
     \<lparr>id_l = i, title = t, city = c, type_l = ty, price = p, beds = None, area_m2 = None,
      address = None, created_at = None\<rparr>"

text \<open>The collection of the specification's scenario.\<close>

definition scenario :: "listing list" where
  "scenario =
     [mkListing 1 ''One'' ''A'' ''flat'' 100,
      mkListing 2 ''Two'' ''A'' ''house'' 200,
      mkListing 3 ''Three'' ''B'' ''flat'' 150]"

text \<open>A collection whose city names are numerals.\<close>

definition numberedCities :: "listing list" where
  "numberedCities =
     [mkListing 1 ''One'' ''2'' ''flat'' 100,
      mkListing 2 ''Two'' ''1'' ''flat'' 200]"

text \<open>A collection with a price of \<open>2^54\<close>.\<close>

definition bigPrices :: "listing list" where
  "bigPrices =
     [mkListing 1 ''One'' ''A'' ''flat'' 18014398509481984,
      mkListing 2 ''Two'' ''A'' ''flat'' 0,
      mkListing 3 ''Three'' ''A'' ''flat'' 1]"

definition noFilters :: filters where
  "noFilters =
     \<lparr>q = None, city_f = None, type_f = None, minPrice = None, maxPrice = None,
      beds_f = None, sort_f = None\<rparr>"

definition mockCtx :: "listing list \<Rightarrow> ctx" where
  "mockCtx data = \<lparr>req_query = Some [], env_SQL = False, env_DB = False, env_MOCK_DATA = Some data\<rparr>"

definition dbCtx :: "listing list \<Rightarrow> ctx" where
  "dbCtx data = \<lparr>req_query = Some [], env_SQL = True, env_DB = False, env_MOCK_DATA = Some data\<rparr>"

definition failingDb :: handler where
  "failingDb c = Inl (Failure ''connection refused'')"

section \<open>Facts about the built-ins\<close>

lemma trim_split:
  "dropWhile isWhiteSpace s = trim s @ rev (takeWhile isWhiteSpace (rev (dropWhile isWhiteSpace s)))"
proof -
  let ?u = "dropWhile isWhiteSpace s"
  have "trim s @ rev (takeWhile isWhiteSpace (rev ?u))
          = rev (takeWhile isWhiteSpace (rev ?u) @ dropWhile isWhiteSpace (rev ?u))"
    by (simp only: trim_def rev_append)
  also have "\<dots> = rev (rev ?u)"
    by (simp only: takeWhile_dropWhile_id)
  finally show ?thesis by simp
qed

lemma trim_decomp:
  "\<exists>l r. s = l @ trim s @ r \<and> list_all isWhiteSpace l \<and> list_all isWhiteSpace r"
proof (intro exI conjI)
  show "s = takeWhile isWhiteSpace s @ trim s
            @ rev (takeWhile isWhiteSpace (rev (dropWhile isWhiteSpace s)))"
    using trim_split [of s] takeWhile_dropWhile_id [of isWhiteSpace s] by simp
  show "list_all isWhiteSpace (takeWhile isWhiteSpace s)"
    by (auto simp: list_all_iff dest: set_takeWhileD)
  show "list_all isWhiteSpace (rev (takeWhile isWhiteSpace (rev (dropWhile isWhiteSpace s))))"
    by (auto simp: list_all_iff dest: set_takeWhileD)
qed

lemma trim_ends:
  assumes "trim s \<noteq> []"
  shows "\<not> isWhiteSpace (hd (trim s)) \<and> \<not> isWhiteSpace (last (trim s))"
proof
  let ?u = "dropWhile isWhiteSpace s"
  have u: "?u \<noteq> []"
  proof
    assume "?u = []"
    then have "trim s = rev (dropWhile isWhiteSpace (rev []))"
      by (simp only: trim_def)
    with assms show False by simp
  qed
  have "hd (trim s) = hd ?u"
    using assms trim_split [of s] by (metis hd_append2)
  then show "\<not> isWhiteSpace (hd (trim s))"
    using hd_dropWhile [OF u] by simp
  have d: "dropWhile isWhiteSpace (rev ?u) \<noteq> []"
    using assms by (simp add: trim_def)
  have "last (trim s) = hd (dropWhile isWhiteSpace (rev ?u))"
    using d by (simp add: trim_def last_rev)
  then show "\<not> isWhiteSpace (last (trim s))"
    using hd_dropWhile [OF d] by simp
qed

lemma trim_idem: "trim (trim s) = trim s"
proof (cases "trim s = []")
  case True
  have "trim [] = []" by (simp add: trim_def)
  with True show ?thesis by simp
next
  case False
  from trim_ends [OF False]
  have h: "\<not> isWhiteSpace (hd (trim s))" and l: "\<not> isWhiteSpace (last (trim s))"
    by simp_all
  have 1: "dropWhile isWhiteSpace (trim s) = trim s"
    using h False by (simp add: dropWhile_eq_self_iff)
  have "hd (rev (trim s)) = last (trim s)"
    using False by (simp add: hd_rev)
  then have 2: "dropWhile isWhiteSpace (rev (trim s)) = rev (trim s)"
    using l False by (simp add: dropWhile_eq_self_iff)
  show ?thesis
    unfolding trim_def [of "trim s"] by (simp add: 1 2)
qed

lemma trim_blank: "trim s = [] \<longleftrightarrow> list_all isWhiteSpace s"
proof
  assume "trim s = []"
  with trim_decomp [of s] show "list_all isWhiteSpace s"
    by auto
next
  assume "list_all isWhiteSpace s"
  then have "dropWhile isWhiteSpace s = []"
    by (simp add: list_all_iff)
  then have "trim s = rev (dropWhile isWhiteSpace (rev []))"
    by (simp only: trim_def)
  then show "trim s = []"
    by simp
qed

declare expo.simps [simp del]

lemma expo_small: "n < 2 ^ 53 \<Longrightarrow> expo n = 0"
  by (simp add: expo.simps)

lemma toDouble_small:
  assumes "n < 9007199254740992"
  shows "toDouble n = Some n"
proof -
  have n: "n < 2 ^ 53"
    using assms by simp
  have "(2::nat) ^ 53 \<le> 2 ^ 1024"
    by (rule power_increasing) simp_all
  then have "n < 2 ^ 1024"
    using n by (rule less_le_trans [rotated])
  then show ?thesis
    by (simp add: toDouble_def expo_small [OF n])
qed

lemma insert_by_asc: "insert_by (\<lambda>a b. f a - f b) x ys = insort_key f x ys"
  by (induction ys) auto

lemma js_sort_asc: "js_sort (\<lambda>a b. f a - f b) xs = sort_key f xs"
  by (induction xs) (simp_all add: js_sort_def insert_by_asc)

lemma insert_by_desc: "insert_by (\<lambda>a b. f b - f a) x ys = insort_key (\<lambda>x. - f x) x ys"
  by (induction ys) auto

lemma js_sort_desc: "js_sort (\<lambda>a b. f b - f a) xs = sort_key (\<lambda>x. - f x) xs"
  by (induction xs) (simp_all add: js_sort_def insert_by_desc)

lemma sorted_neg_rev: "sorted (map (\<lambda>x. - f x) xs) = sorted (rev (map (f :: 'a \<Rightarrow> rat) xs))"
  by (simp add: sorted_wrt_rev sorted_wrt_map)

lemma sort_key_neg_stable:
  "filter (\<lambda>y. f y = k) (sort_key (\<lambda>x. - f x) xs) = filter (\<lambda>y. (f y :: rat) = k) xs"
  using sort_key_stable [of "\<lambda>x. - f x" "- k" xs] by simp

lemma sourceParam_query_key: "sourceParam c = (case query_key c ''source'' of None \<Rightarrow> None | Some s \<Rightarrow> Some s)"
  by (simp add: sourceParam_def query_key_def query_all_def js_or_def split: option.splits)

lemma sourceParam_eq [simp]: "sourceParam c = query_key c ''source''"
  by (simp add: sourceParam_query_key split: option.splits)

lemma find_None_iff2: "(find P xs = None) = (\<forall>x\<in>set xs. \<not> P x)"
  by (induction xs) auto

lemma find_Some_ex: "\<exists>x\<in>set xs. P x \<Longrightarrow> \<exists>y. find P xs = Some y \<and> P y \<and> y \<in> set xs"
  by (induction xs) auto



section \<open>Source selection: overrides and fallback\<close>

text \<open>
  C2.  A request whose \<open>source\<close> parameter is \<open>mock\<close> runs the mock handler and nothing
  else; one whose parameter is \<open>db\<close> runs the database handler and nothing else, and the
  outcome of that handler, a failure included, is the outcome of the call.  With any
  other value, or none, the selection is the automatic one: the mock handler when no
  database binding is present, else the database handler with the fallback; it is the
  selection made for the same request without its query.
\<close>

theorem selectDataSource_override:
  "(query_key c ''source'' = Some ''mock'' \<longrightarrow>
      selectDataSource c dbLogic mockLogic = ([CalledMock], mockLogic c))
   \<and> (query_key c ''source'' = Some ''db'' \<longrightarrow>
      selectDataSource c dbLogic mockLogic = ([CalledDb], dbLogic c))
   \<and> (query_key c ''source'' \<noteq> Some ''mock'' \<and> query_key c ''source'' \<noteq> Some ''db'' \<longrightarrow>
      selectDataSource c dbLogic mockLogic =
        (if env_SQL c \<or> env_DB c
         then (case dbLogic c of
                 Inr r \<Rightarrow> ([CalledDb], Inr r)
               | Inl err \<Rightarrow> ([CalledDb, LoggedError err, CalledMock], mockLogic c))
         else ([CalledMock], mockLogic c))
      \<and> selectDataSource c dbLogic mockLogic =
          selectDataSource (c\<lparr>req_query := None\<rparr>) (\<lambda>_. dbLogic c) (\<lambda>_. mockLogic c))"
proof (intro conjI impI)
  assume "query_key c ''source'' = Some ''mock''"
  then show "selectDataSource c dbLogic mockLogic = ([CalledMock], mockLogic c)"
    by (simp add: selectDataSource_def)
next
  assume "query_key c ''source'' = Some ''db''"
  then show "selectDataSource c dbLogic mockLogic = ([CalledDb], dbLogic c)"
    by (simp add: selectDataSource_def)
next
  assume other: "query_key c ''source'' \<noteq> Some ''mock'' \<and> query_key c ''source'' \<noteq> Some ''db''"
  then show auto: "selectDataSource c dbLogic mockLogic =
        (if env_SQL c \<or> env_DB c
         then (case dbLogic c of
                 Inr r \<Rightarrow> ([CalledDb], Inr r)
               | Inl err \<Rightarrow> ([CalledDb, LoggedError err, CalledMock], mockLogic c))
         else ([CalledMock], mockLogic c))"
    by (simp add: selectDataSource_def)
  have "query_key (c\<lparr>req_query := None\<rparr>) ''source'' = None"
    by (simp add: query_key_def)
  then have "selectDataSource (c\<lparr>req_query := None\<rparr>) (\<lambda>_. dbLogic c) (\<lambda>_. mockLogic c) =
        (if env_SQL c \<or> env_DB c
         then (case dbLogic c of
                 Inr r \<Rightarrow> ([CalledDb], Inr r)
               | Inl err \<Rightarrow> ([CalledDb, LoggedError err, CalledMock], mockLogic c))
         else ([CalledMock], mockLogic c))"
    by (simp add: selectDataSource_def)
  with auto show "selectDataSource c dbLogic mockLogic =
          selectDataSource (c\<lparr>req_query := None\<rparr>) (\<lambda>_. dbLogic c) (\<lambda>_. mockLogic c)"
    by simp
qed

theorem selectDataSource_override_witness:
  "query_key (mockCtx scenario\<lparr>req_query := Some [(''source'', ''mock'')]\<rparr>) ''source'' = Some ''mock''
   \<and> selectDataSource (mockCtx scenario\<lparr>req_query := Some [(''source'', ''mock'')]\<rparr>) failingDb
         (detailRoute_mockLogic ''1'')
       = ([CalledMock], detailRoute_mockLogic ''1'' (mockCtx scenario\<lparr>req_query := Some [(''source'', ''mock'')]\<rparr>))
   \<and> query_key (dbCtx scenario\<lparr>req_query := Some [(''source'', ''db'')]\<rparr>) ''source'' = Some ''db''
   \<and> selectDataSource (dbCtx scenario\<lparr>req_query := Some [(''source'', ''db'')]\<rparr>) failingDb
         (detailRoute_mockLogic ''1'')
       = ([CalledDb], Inl (Failure ''connection refused''))
   \<and> query_key (mockCtx scenario\<lparr>req_query := Some [(''source'', ''MOCK'')]\<rparr>) ''source'' \<noteq> Some ''mock''
   \<and> query_key (mockCtx scenario\<lparr>req_query := Some [(''source'', ''MOCK'')]\<rparr>) ''source'' \<noteq> Some ''db''
   \<and> selectDataSource (mockCtx scenario\<lparr>req_query := Some [(''source'', ''MOCK'')]\<rparr>) failingDb
         (detailRoute_mockLogic ''1'')
       = ([CalledMock], detailRoute_mockLogic ''1'' (mockCtx scenario\<lparr>req_query := Some [(''source'', ''MOCK'')]\<rparr>))"
  using selectDataSource_override [of "mockCtx scenario\<lparr>req_query := Some [(''source'', ''mock'')]\<rparr>" failingDb "detailRoute_mockLogic ''1''"]
        selectDataSource_override [of "dbCtx scenario\<lparr>req_query := Some [(''source'', ''db'')]\<rparr>" failingDb "detailRoute_mockLogic ''1''"]
        selectDataSource_override [of "mockCtx scenario\<lparr>req_query := Some [(''source'', ''MOCK'')]\<rparr>" failingDb "detailRoute_mockLogic ''1''"]
  by (simp add: query_key_def mockCtx_def dbCtx_def failingDb_def)


text \<open>
  C1, as the code has it.  With no override and a database binding present, a failing
  database handler is called once, one line is logged, the mock handler is called once
  and its outcome is the outcome of the call, whatever the database error was.  What
  that outcome is, for the handlers of the routes, depends on the environment.  When it
  holds the mock collection (\<^verbatim>\<open>env.MOCK_DATA\<close>), the response of the search carries
  \<open>source = mock\<close>; so do the detail and the related response when a listing of the
  collection has the id that \<open>parseInt\<close> reads from the parameter; when none has, or
  \<open>parseInt\<close> reads no number, the response is the 404 error body, which has no
  \<open>source\<close>.  When the environment holds no mock collection, each of the three handlers
  raises a \<^verbatim>\<open>TypeError\<close>, and that error is the outcome of the call.
\<close>

theorem selectDataSource_fallback:
  assumes "query_key c ''source'' \<noteq> Some ''mock''" and "query_key c ''source'' \<noteq> Some ''db''"
    and "env_SQL c \<or> env_DB c"
    and "dbLogic c = Inl err"
  shows "selectDataSource c dbLogic mockLogic
           = ([CalledDb, LoggedError err, CalledMock], mockLogic c)
     \<and> (\<forall>data. env_MOCK_DATA c = Some data \<longrightarrow>
          (\<exists>ls. snd (selectDataSource c dbLogic (listingsRoute_mockLogic Number filters))
                  = Inr \<lparr>status = 200, body = ListingsJson ls ''mock''\<rparr>)
        \<and> ((\<exists>x\<in>set data. Some (id_l x) = parseInt i) \<longrightarrow>
             (\<exists>l. snd (selectDataSource c dbLogic (detailRoute_mockLogic i))
                     = Inr \<lparr>status = 200, body = ListingJson l ''mock''\<rparr>)
           \<and> (\<exists>r. snd (selectDataSource c dbLogic (relatedRoute_mockLogic fl i))
                     = Inr \<lparr>status = 200, body = RelatedJson r ''mock''\<rparr>))
        \<and> ((\<forall>x\<in>set data. Some (id_l x) \<noteq> parseInt i) \<longrightarrow>
             snd (selectDataSource c dbLogic (detailRoute_mockLogic i))
               = Inr \<lparr>status = 404, body = ErrorJson ''Listing not found''\<rparr>
           \<and> snd (selectDataSource c dbLogic (relatedRoute_mockLogic fl i))
               = Inr \<lparr>status = 404, body = ErrorJson ''Listing not found''\<rparr>))
     \<and> (env_MOCK_DATA c = None \<longrightarrow>
          snd (selectDataSource c dbLogic (listingsRoute_mockLogic Number filters)) = Inl TypeError
        \<and> snd (selectDataSource c dbLogic (detailRoute_mockLogic i)) = Inl TypeError
        \<and> snd (selectDataSource c dbLogic (relatedRoute_mockLogic fl i)) = Inl TypeError)"
proof -
  have sel: "\<And>m. selectDataSource c dbLogic m = ([CalledDb, LoggedError err, CalledMock], m c)"
    using assms by (auto simp add: selectDataSource_def)
  have found: "\<exists>l. getListingDetail c i = Inr \<lparr>status = 200, body = ListingJson l ''mock''\<rparr>"
      and foundr: "\<exists>r. getRelatedListingData fl c i = Inr \<lparr>status = 200, body = RelatedJson r ''mock''\<rparr>"
    if md: "env_MOCK_DATA c = Some data" and ex: "\<exists>x\<in>set data. Some (id_l x) = parseInt i" for data
  proof -
    obtain y where y: "find (\<lambda>x. Some (id_l x) = parseInt i) data = Some y"
      using find_Some_ex [OF ex] by blast
    show "\<exists>l. getListingDetail c i = Inr \<lparr>status = 200, body = ListingJson l ''mock''\<rparr>"
      using md y by (simp add: getListingDetail_def)
    show "\<exists>r. getRelatedListingData fl c i = Inr \<lparr>status = 200, body = RelatedJson r ''mock''\<rparr>"
      using md y by (simp add: getRelatedListingData_def Let_def)
  qed
  have missing: "getListingDetail c i = Inr \<lparr>status = 404, body = ErrorJson ''Listing not found''\<rparr>
      \<and> getRelatedListingData fl c i = Inr \<lparr>status = 404, body = ErrorJson ''Listing not found''\<rparr>"
    if "env_MOCK_DATA c = Some data" and "\<forall>x\<in>set data. Some (id_l x) \<noteq> parseInt i" for data
  proof -
    have "find (\<lambda>x. Some (id_l x) = parseInt i) data = None"
      using that(2) by (simp add: find_None_iff2)
    then show ?thesis
      using that(1) by (simp add: getListingDetail_def getRelatedListingData_def)
  qed
  have lst: "\<exists>ls. getListingsList Number c filters = Inr \<lparr>status = 200, body = ListingsJson ls ''mock''\<rparr>"
    if "env_MOCK_DATA c = Some data" for data
    using that by (simp add: getListingsList_def Let_def)
  have none: "getListingsList Number c filters = Inl TypeError \<and> getListingDetail c i = Inl TypeError
      \<and> getRelatedListingData fl c i = Inl TypeError"
    if "env_MOCK_DATA c = None"
    using that by (simp add: getListingsList_def getListingDetail_def getRelatedListingData_def Let_def)
  show ?thesis
    using found foundr missing lst none
    by (simp add: sel listingsRoute_mockLogic_def detailRoute_mockLogic_def relatedRoute_mockLogic_def)
qed


theorem selectDataSource_fallback_witness:
  "query_key (dbCtx scenario) ''source'' \<noteq> Some ''mock''
   \<and> query_key (dbCtx scenario) ''source'' \<noteq> Some ''db''
   \<and> (env_SQL (dbCtx scenario) \<or> env_DB (dbCtx scenario))
   \<and> failingDb (dbCtx scenario) = Inl (Failure ''connection refused'')
   \<and> env_MOCK_DATA (dbCtx scenario) = Some scenario
   \<and> (\<exists>x\<in>set scenario. Some (id_l x) = parseInt ''1'')
   \<and> list_all (\<lambda>x. Some (id_l x) \<noteq> parseInt ''99'') scenario
   \<and> selectDataSource (dbCtx scenario) failingDb (detailRoute_mockLogic ''1'')
       = ([CalledDb, LoggedError (Failure ''connection refused''), CalledMock],
          detailRoute_mockLogic ''1'' (dbCtx scenario))
   \<and> (\<exists>l. snd (selectDataSource (dbCtx scenario) failingDb (detailRoute_mockLogic ''1''))
             = Inr \<lparr>status = 200, body = ListingJson l ''mock''\<rparr>)
   \<and> snd (selectDataSource (dbCtx scenario) failingDb (relatedRoute_mockLogic intDouble ''99''))
       = Inr \<lparr>status = 404, body = ErrorJson ''Listing not found''\<rparr>
   \<and> query_key (dbCtx scenario\<lparr>env_MOCK_DATA := None\<rparr>) ''source'' \<noteq> Some ''mock''
   \<and> query_key (dbCtx scenario\<lparr>env_MOCK_DATA := None\<rparr>) ''source'' \<noteq> Some ''db''
   \<and> (env_SQL (dbCtx scenario\<lparr>env_MOCK_DATA := None\<rparr>) \<or> env_DB (dbCtx scenario\<lparr>env_MOCK_DATA := None\<rparr>))
   \<and> failingDb (dbCtx scenario\<lparr>env_MOCK_DATA := None\<rparr>) = Inl (Failure ''connection refused'')
   \<and> env_MOCK_DATA (dbCtx scenario\<lparr>env_MOCK_DATA := None\<rparr>) = None
   \<and> selectDataSource (dbCtx scenario\<lparr>env_MOCK_DATA := None\<rparr>) failingDb (detailRoute_mockLogic ''1'')
       = ([CalledDb, LoggedError (Failure ''connection refused''), CalledMock], Inl TypeError)"
proof -
  have n1: "query_key (dbCtx scenario\<lparr>env_MOCK_DATA := None\<rparr>) ''source'' \<noteq> Some ''mock''"
    and n2: "query_key (dbCtx scenario\<lparr>env_MOCK_DATA := None\<rparr>) ''source'' \<noteq> Some ''db''"
    and n3: "env_SQL (dbCtx scenario\<lparr>env_MOCK_DATA := None\<rparr>) \<or> env_DB (dbCtx scenario\<lparr>env_MOCK_DATA := None\<rparr>)"
    and n4: "failingDb (dbCtx scenario\<lparr>env_MOCK_DATA := None\<rparr>) = Inl (Failure ''connection refused'')"
    and n5: "env_MOCK_DATA (dbCtx scenario\<lparr>env_MOCK_DATA := None\<rparr>) = None"
    by (simp_all add: query_key_def dbCtx_def failingDb_def)
  have n6: "selectDataSource (dbCtx scenario\<lparr>env_MOCK_DATA := None\<rparr>) failingDb (detailRoute_mockLogic ''1'')
       = ([CalledDb, LoggedError (Failure ''connection refused''), CalledMock], Inl TypeError)"
    using selectDataSource_fallback [where c = "dbCtx scenario\<lparr>env_MOCK_DATA := None\<rparr>"
          and dbLogic = failingDb and mockLogic = "detailRoute_mockLogic ''1''" and Number = decimalNumber
          and filters = noFilters and fl = intDouble and i = "''1''", OF n1 n2 n3 n4] n5
    by (metis prod.collapse snd_conv fst_conv)
  have h1: "query_key (dbCtx scenario) ''source'' \<noteq> Some ''mock''"
    and h2: "query_key (dbCtx scenario) ''source'' \<noteq> Some ''db''"
    and h3: "env_SQL (dbCtx scenario) \<or> env_DB (dbCtx scenario)"
    and h4: "failingDb (dbCtx scenario) = Inl (Failure ''connection refused'')"
    and h5: "env_MOCK_DATA (dbCtx scenario) = Some scenario"
    by (simp_all add: query_key_def dbCtx_def failingDb_def)
  have p1: "parseInt ''1'' = Some 1" and p99: "parseInt ''99'' = Some 99"
    by (simp_all add: parseInt_def isWhiteSpace_def isDigit_def digitsValue_def digitValue_def toDouble_small)
  have h6: "\<exists>x\<in>set scenario. Some (id_l x) = parseInt ''1''"
    by (simp add: p1 scenario_def mkListing_def)
  have h7: "\<forall>x\<in>set scenario. Some (id_l x) \<noteq> parseInt ''99''"
    by (simp add: p99 scenario_def mkListing_def)
  show ?thesis
    using selectDataSource_fallback [where c = "dbCtx scenario" and dbLogic = failingDb
          and mockLogic = "detailRoute_mockLogic ''1''" and Number = decimalNumber
          and filters = noFilters and fl = intDouble and i = "''1''", OF h1 h2 h3 h4]
      selectDataSource_fallback [where c = "dbCtx scenario" and dbLogic = failingDb
          and mockLogic = "detailRoute_mockLogic ''1''" and Number = decimalNumber
          and filters = noFilters and fl = intDouble and i = "''99''", OF h1 h2 h3 h4]
      h1 h2 h3 h4 h5 h6 h7 n1 n2 n3 n4 n5 n6
    by (simp add: list_all_iff)
qed

text \<open>
  C1 as stated fails: on the detail route, with a database binding present and a failing
  database handler, a request for an id that is not in the collection is answered by the
  mock handler's 404 response, which carries no \<open>source\<close> field.
\<close>

theorem fallback_source_counterexample:
  "query_key (dbCtx scenario) ''source'' = None
   \<and> env_SQL (dbCtx scenario)
   \<and> failingDb (dbCtx scenario) = Inl (Failure ''connection refused'')
   \<and> selectDataSource (dbCtx scenario) failingDb (detailRoute_mockLogic ''99'')
       = ([CalledDb, LoggedError (Failure ''connection refused''), CalledMock],
          Inr \<lparr>status = 404, body = ErrorJson ''Listing not found''\<rparr>)
   \<and> source_of (ErrorJson ''Listing not found'') \<noteq> Some ''mock''"
  by (simp add: selectDataSource_def sourceParam_def query_key_def query_all_def js_or_def dbCtx_def failingDb_def
      detailRoute_mockLogic_def getListingDetail_def scenario_def mkListing_def parseInt_def isWhiteSpace_def isDigit_def
      digitsValue_def digitValue_def toDouble_small)

section \<open>Listing search\<close>

lemma trim_Nil [simp]: "trim [] = []"
  by (simp add: trim_def)

lemma toLowerCase_Nil_iff [simp]: "toLowerCase s = [] \<longleftrightarrow> s = []"
  by (simp add: toLowerCase_def)

lemma getListingsList_Some:
  "env_MOCK_DATA c = Some data \<Longrightarrow>
   getListingsList Number c filters
     = Inr \<lparr>status = 200,
            body = ListingsJson (sort_stage filters (filter_stage Number filters data)) ''mock''\<rparr>"
  by (simp add: getListingsList_def)

lemma sort_stage_None [simp]: "sort_stage (filters\<lparr>sort_f := None\<rparr>) xs = xs"
  by (simp add: sort_stage_def)

lemma stage_text:
  "(if q' \<noteq> [] then filter (\<lambda>x. includes_str (toLowerCase (haystack x)) q') xs else xs)
     = filter (\<lambda>x. q' = [] \<or> sublist q'
                 (toLowerCase (title x @ '' '' @ city x @ '' ''
                    @ (case address x of None \<Rightarrow> [] | Some a \<Rightarrow> a) @ '' '' @ type_l x))) xs"
  by (simp add: includes_str_def haystack_def)

lemma stage_exact:
  "(if truthy v then filter (\<lambda>x. Some (f x) = v) xs else xs)
     = filter (\<lambda>x. v = None \<or> v = Some [] \<or> v = Some (f x)) xs"
  by (cases v) (auto simp: truthy_def intro: filter_cong)

lemma stage_num:
  "(case numParam Number v of
      Some n \<Rightarrow> if n \<noteq> NaN then filter (\<lambda>x. P x n) xs else xs
    | None \<Rightarrow> xs)
     = filter (\<lambda>x. case v of None \<Rightarrow> True | Some s \<Rightarrow> s = [] \<or> Number s = NaN \<or> P x (Number s)) xs"
  by (cases v) (simp_all add: numParam_def)

lemma filter_stage_nested:
  "filter_stage Number filters data =
     filter (\<lambda>x. case beds_f filters of None \<Rightarrow> True
                 | Some s \<Rightarrow> s = [] \<or> Number s = NaN \<or> num_ge (bedsOr0 x) (Number s))
      (filter (\<lambda>x. case maxPrice filters of None \<Rightarrow> True
                 | Some s \<Rightarrow> s = [] \<or> Number s = NaN \<or> num_le (price x) (Number s))
        (filter (\<lambda>x. case minPrice filters of None \<Rightarrow> True
                   | Some s \<Rightarrow> s = [] \<or> Number s = NaN \<or> num_ge (price x) (Number s))
          (filter (\<lambda>x. type_f filters = None \<or> type_f filters = Some [] \<or> type_f filters = Some (type_l x))
            (filter (\<lambda>x. city_f filters = None \<or> city_f filters = Some [] \<or> city_f filters = Some (city x))
              (filter (\<lambda>x. toLowerCase (trim (case q filters of None \<Rightarrow> [] | Some s \<Rightarrow> s)) = []
                         \<or> sublist (toLowerCase (trim (case q filters of None \<Rightarrow> [] | Some s \<Rightarrow> s)))
                              (toLowerCase (title x @ '' '' @ city x @ '' ''
                                 @ (case address x of None \<Rightarrow> [] | Some a \<Rightarrow> a) @ '' '' @ type_l x)))
                 data)))))"
  unfolding filter_stage_def Let_def stage_text stage_exact
    stage_num [where P = "\<lambda>x n. num_ge (price x) n"]
    stage_num [where P = "\<lambda>x n. num_le (price x) n"]
    stage_num [where P = "\<lambda>x n. num_ge (bedsOr0 x) n"]
  by (rule refl)

lemma filter_stage_sort_f [simp]:
  "filter_stage Number (filters\<lparr>sort_f := v\<rparr>) data = filter_stage Number filters data"
  by (simp add: filter_stage_nested)

lemma filter_stage_q_trim:
  "filter_stage Number (filters\<lparr>q := Some (trim s)\<rparr>) data
     = filter_stage Number (filters\<lparr>q := Some s\<rparr>) data"
  by (simp add: filter_stage_nested trim_idem)

lemma filter_stage_q_blank:
  "list_all isWhiteSpace s \<Longrightarrow>
   filter_stage Number (filters\<lparr>q := Some s\<rparr>) data
     = filter_stage Number (filters\<lparr>q := None\<rparr>) data"
  using trim_blank [of s] by (simp add: filter_stage_nested)

lemma sort_stage_q [simp]: "sort_stage (filters\<lparr>q := v\<rparr>) xs = sort_stage filters xs"
  by (simp add: sort_stage_def)

text \<open>
  C3, as the code has it.  With a collection in the environment the search never fails,
  and what it sorts is the collection narrowed by six filters in the fixed order \<open>q\<close>,
  \<open>city\<close>, \<open>type\<close>, \<open>minPrice\<close>, \<open>maxPrice\<close>, \<open>beds\<close>.  The free-text filter looks for
  the trimmed, lower-cased \<open>q\<close> in the lower-cased text made of title, city, address
  (empty when missing) and type \<^emph>\<open>joined by single spaces\<close>; \<open>city\<close> and \<open>type\<close> are
  exact matches; \<open>minPrice\<close> and \<open>maxPrice\<close> are inclusive bounds on the price; \<open>beds\<close>
  is an inclusive lower bound on the beds, a missing field counting as 0.  A filter lets
  every listing through when its parameter is missing or empty, or, for the numeric
  ones, when the conversion yields NaN.
\<close>

theorem search_filter_pipeline:
  assumes "env_MOCK_DATA c = Some data"
  shows "getListingsList Number c filters =
    Inr \<lparr>status = 200,
         body = ListingsJson (sort_stage filters
     (filter (\<lambda>x. case beds_f filters of None \<Rightarrow> True
                 | Some s \<Rightarrow> s = [] \<or> Number s = NaN \<or> num_ge (bedsOr0 x) (Number s))
      (filter (\<lambda>x. case maxPrice filters of None \<Rightarrow> True
                 | Some s \<Rightarrow> s = [] \<or> Number s = NaN \<or> num_le (price x) (Number s))
        (filter (\<lambda>x. case minPrice filters of None \<Rightarrow> True
                   | Some s \<Rightarrow> s = [] \<or> Number s = NaN \<or> num_ge (price x) (Number s))
          (filter (\<lambda>x. type_f filters = None \<or> type_f filters = Some [] \<or> type_f filters = Some (type_l x))
            (filter (\<lambda>x. city_f filters = None \<or> city_f filters = Some [] \<or> city_f filters = Some (city x))
              (filter (\<lambda>x. toLowerCase (trim (case q filters of None \<Rightarrow> [] | Some s \<Rightarrow> s)) = []
                         \<or> sublist (toLowerCase (trim (case q filters of None \<Rightarrow> [] | Some s \<Rightarrow> s)))
                              (toLowerCase (title x @ '' '' @ city x @ '' ''
                                 @ (case address x of None \<Rightarrow> [] | Some a \<Rightarrow> a) @ '' '' @ type_l x)))
                 data))))))) ''mock''\<rparr>"
  using assms by (simp only: getListingsList_Some filter_stage_nested)

theorem search_filter_pipeline_witness:
  "env_MOCK_DATA (mockCtx scenario) = Some scenario
   \<and> getListingsList decimalNumber (mockCtx scenario) (noFilters\<lparr>minPrice := Some ''120''\<rparr>)
       = Inr \<lparr>status = 200,
              body = ListingsJson [mkListing 2 ''Two'' ''A'' ''house'' 200,
                                   mkListing 3 ''Three'' ''B'' ''flat'' 150] ''mock''\<rparr>"
proof -
  have h: "env_MOCK_DATA (mockCtx scenario) = Some scenario"
    by (simp add: mockCtx_def)
  have n: "decimalNumber ''120'' = Fin 120"
    by (simp add: decimalNumber_def trim_def isWhiteSpace_def isDigit_def digitsValue_def digitValue_def)
  show ?thesis
    using search_filter_pipeline [OF h, of decimalNumber "noFilters\<lparr>minPrice := Some ''120''\<rparr>"] h
    by (simp add: n noFilters_def sort_stage_def scenario_def mkListing_def)
qed

text \<open>
  C3 as stated fails: the text searched is not the plain concatenation of the fields.
  For a listing titled \<open>ab\<close> in the city \<open>cd\<close>, the query \<open>bc\<close> occurs in the
  concatenation \<open>abcdflat\<close>, yet the search returns nothing, since the text it searches
  is \<open>ab cd  flat\<close>.
\<close>

theorem free_text_concatenation_counterexample:
  "includes_str (toLowerCase (spec_concat (mkListing 1 ''ab'' ''cd'' ''flat'' 100))) (toLowerCase (trim ''bc''))
   \<and> getListingsList decimalNumber (mockCtx [mkListing 1 ''ab'' ''cd'' ''flat'' 100]) (noFilters\<lparr>q := Some ''bc''\<rparr>)
       = Inr \<lparr>status = 200, body = ListingsJson [] ''mock''\<rparr>"
  by code_simp


lemma sort_stage_mset: "mset (sort_stage filters xs) = mset xs"
  by (simp add: sort_stage_def js_sort_asc js_sort_desc)

text \<open>
  C4.  The listings returned are a rearrangement of the filtered ones (those returned
  when no sort key is given).  With \<open>price_asc\<close> they ascend by price; with
  \<open>price_desc\<close> they descend by price; with \<open>area_desc\<close> they descend by area, a missing
  area counting as 0; with \<open>newest\<close> they descend by creation time, a missing one
  counting as the epoch.  Each of these sorts is stable: listings with the same key keep
  the order they had after filtering.  With any other key, or none, the order after
  filtering is kept.
\<close>

theorem sort_stage_orders:
  assumes "env_MOCK_DATA c = Some data"
  shows "\<exists>fs rs.
      getListingsList Number c (filters\<lparr>sort_f := None\<rparr>)
        = Inr \<lparr>status = 200, body = ListingsJson fs ''mock''\<rparr>
    \<and> getListingsList Number c filters = Inr \<lparr>status = 200, body = ListingsJson rs ''mock''\<rparr>
    \<and> mset rs = mset fs
    \<and> (sort_f filters = Some ''price_asc'' \<longrightarrow>
         sorted (map price rs)
         \<and> (\<forall>k. filter (\<lambda>x. price x = k) rs = filter (\<lambda>x. price x = k) fs))
    \<and> (sort_f filters = Some ''price_desc'' \<longrightarrow>
         sorted (rev (map price rs))
         \<and> (\<forall>k. filter (\<lambda>x. price x = k) rs = filter (\<lambda>x. price x = k) fs))
    \<and> (sort_f filters = Some ''area_desc'' \<longrightarrow>
         sorted (rev (map (\<lambda>x. case area_m2 x of None \<Rightarrow> 0 | Some a \<Rightarrow> a) rs))
         \<and> (\<forall>k. filter (\<lambda>x. (case area_m2 x of None \<Rightarrow> 0 | Some a \<Rightarrow> a) = k) rs
                = filter (\<lambda>x. (case area_m2 x of None \<Rightarrow> 0 | Some a \<Rightarrow> a) = k) fs))
    \<and> (sort_f filters = Some ''newest'' \<longrightarrow>
         sorted (rev (map (\<lambda>x. case created_at x of None \<Rightarrow> 0 | Some t \<Rightarrow> t) rs))
         \<and> (\<forall>k. filter (\<lambda>x. (case created_at x of None \<Rightarrow> 0 | Some t \<Rightarrow> t) = k) rs
                = filter (\<lambda>x. (case created_at x of None \<Rightarrow> 0 | Some t \<Rightarrow> t) = k) fs))
    \<and> (sort_f filters \<notin> {Some ''price_asc'', Some ''price_desc'', Some ''area_desc'', Some ''newest''}
         \<longrightarrow> rs = fs)"
proof -
  let ?fs = "filter_stage Number filters data"
  let ?rs = "sort_stage filters ?fs"
  let ?area = "\<lambda>x. case area_m2 x of None \<Rightarrow> (0::rat) | Some a \<Rightarrow> a"
  let ?time = "\<lambda>x. case created_at x of None \<Rightarrow> (0::int) | Some t \<Rightarrow> t"
  have area: "areaOr0 = ?area"
    by (rule ext) (simp add: areaOr0_def)
  have time: "createdTime x = of_int (?time x)" for x
    by (simp add: createdTime_def split: option.splits)
  have 1: "getListingsList Number c (filters\<lparr>sort_f := None\<rparr>)
        = Inr \<lparr>status = 200, body = ListingsJson ?fs ''mock''\<rparr>"
    using assms by (simp add: getListingsList_Some)
  have 2: "getListingsList Number c filters = Inr \<lparr>status = 200, body = ListingsJson ?rs ''mock''\<rparr>"
    using assms by (simp add: getListingsList_Some)
  have 3: "mset ?rs = mset ?fs"
    by (rule sort_stage_mset)
  have 4: "sorted (map price ?rs) \<and> (\<forall>k. filter (\<lambda>x. price x = k) ?rs = filter (\<lambda>x. price x = k) ?fs)"
    if "sort_f filters = Some ''price_asc''"
    using that by (simp add: sort_stage_def js_sort_asc sort_key_stable)
  have 5: "sorted (rev (map price ?rs)) \<and> (\<forall>k. filter (\<lambda>x. price x = k) ?rs = filter (\<lambda>x. price x = k) ?fs)"
    if "sort_f filters = Some ''price_desc''"
    using that sorted_neg_rev [of price "sort_key (\<lambda>x. - price x) ?fs"]
    by (simp add: sort_stage_def js_sort_desc sort_key_neg_stable)
  have 6: "sorted (rev (map ?area ?rs)) \<and> (\<forall>k. filter (\<lambda>x. ?area x = k) ?rs = filter (\<lambda>x. ?area x = k) ?fs)"
    if "sort_f filters = Some ''area_desc''"
    using that sorted_neg_rev [of ?area "sort_key (\<lambda>x. - ?area x) ?fs"]
    by (simp add: sort_stage_def js_sort_desc sort_key_neg_stable area)
  have 7: "sorted (rev (map ?time ?rs)) \<and> (\<forall>k. filter (\<lambda>x. ?time x = k) ?rs = filter (\<lambda>x. ?time x = k) ?fs)"
    if s: "sort_f filters = Some ''newest''"
  proof -
    have rs: "?rs = sort_key (\<lambda>x. - createdTime x) ?fs"
      using s by (simp add: sort_stage_def js_sort_desc)
    have "sorted (rev (map createdTime ?rs))"
      using sorted_neg_rev [of createdTime "sort_key (\<lambda>x. - createdTime x) ?fs"]
      by (simp only: rs sorted_sort_key)
    then have "sorted_wrt (\<lambda>x y. createdTime y \<le> createdTime x) ?rs"
      by (simp add: sorted_wrt_rev sorted_wrt_map)
    then have "sorted_wrt (\<lambda>x y. ?time y \<le> ?time x) ?rs"
      by (simp add: time)
    then have a: "sorted (rev (map ?time ?rs))"
      by (simp add: sorted_wrt_rev sorted_wrt_map)
    have "filter (\<lambda>x. ?time x = k) ?rs = filter (\<lambda>x. ?time x = k) ?fs" for k
      using sort_key_neg_stable [of createdTime "of_int k" ?fs]
      by (simp add: rs time)
    with a show ?thesis by simp
  qed
  have 8: "?rs = ?fs"
    if "sort_f filters \<notin> {Some ''price_asc'', Some ''price_desc'', Some ''area_desc'', Some ''newest''}"
    using that by (simp add: sort_stage_def)
  show ?thesis
    using 1 2 3 4 5 6 7 8 by blast
qed

theorem sort_stage_orders_witness:
  "env_MOCK_DATA (mockCtx scenario) = Some scenario
   \<and> sort_f (noFilters\<lparr>sort_f := Some ''price_desc''\<rparr>) = Some ''price_desc''
   \<and> (\<exists>fs rs.
        getListingsList decimalNumber (mockCtx scenario) (noFilters\<lparr>sort_f := None\<rparr>)
          = Inr \<lparr>status = 200, body = ListingsJson fs ''mock''\<rparr>
      \<and> getListingsList decimalNumber (mockCtx scenario) (noFilters\<lparr>sort_f := Some ''price_desc''\<rparr>)
          = Inr \<lparr>status = 200, body = ListingsJson rs ''mock''\<rparr>
      \<and> mset rs = mset fs
      \<and> sorted (rev (map price rs))
      \<and> rs = [mkListing 2 ''Two'' ''A'' ''house'' 200, mkListing 3 ''Three'' ''B'' ''flat'' 150,
               mkListing 1 ''One'' ''A'' ''flat'' 100])
   \<and> sort_f (noFilters\<lparr>sort_f := Some ''cheapest''\<rparr>)
        \<notin> {Some ''price_asc'', Some ''price_desc'', Some ''area_desc'', Some ''newest''}
   \<and> getListingsList decimalNumber (mockCtx scenario) (noFilters\<lparr>sort_f := Some ''cheapest''\<rparr>)
        = getListingsList decimalNumber (mockCtx scenario) (noFilters\<lparr>sort_f := None\<rparr>)"
proof -
  have h: "env_MOCK_DATA (mockCtx scenario) = Some scenario"
    by (simp add: mockCtx_def)
  have e: "getListingsList decimalNumber (mockCtx scenario) (noFilters\<lparr>sort_f := Some ''price_desc''\<rparr>)
      = Inr \<lparr>status = 200, body = ListingsJson
          [mkListing 2 ''Two'' ''A'' ''house'' 200, mkListing 3 ''Three'' ''B'' ''flat'' 150,
           mkListing 1 ''One'' ''A'' ''flat'' 100] ''mock''\<rparr>"
    by code_simp
  have u: "sort_f (noFilters\<lparr>sort_f := Some ''cheapest''\<rparr>)
        \<notin> {Some ''price_asc'', Some ''price_desc'', Some ''area_desc'', Some ''newest''}"
    by simp
  have desc: "\<exists>fs rs.
        getListingsList decimalNumber (mockCtx scenario) (noFilters\<lparr>sort_f := None\<rparr>)
          = Inr \<lparr>status = 200, body = ListingsJson fs ''mock''\<rparr>
      \<and> getListingsList decimalNumber (mockCtx scenario) (noFilters\<lparr>sort_f := Some ''price_desc''\<rparr>)
          = Inr \<lparr>status = 200, body = ListingsJson rs ''mock''\<rparr>
      \<and> mset rs = mset fs
      \<and> sorted (rev (map price rs))
      \<and> rs = [mkListing 2 ''Two'' ''A'' ''house'' 200, mkListing 3 ''Three'' ''B'' ''flat'' 150,
               mkListing 1 ''One'' ''A'' ''flat'' 100]"
    using sort_stage_orders [OF h, of decimalNumber "noFilters\<lparr>sort_f := Some ''price_desc''\<rparr>"]
    by (auto simp add: e)
  from sort_stage_orders [OF h, of decimalNumber "noFilters\<lparr>sort_f := Some ''cheapest''\<rparr>"] u
  have same: "getListingsList decimalNumber (mockCtx scenario) (noFilters\<lparr>sort_f := Some ''cheapest''\<rparr>)
        = getListingsList decimalNumber (mockCtx scenario) (noFilters\<lparr>sort_f := None\<rparr>)"
    by auto
  show ?thesis
    using h desc u same by simp
qed

lemma sort_key_neg_rev:
  assumes "distinct (map f xs)"
  shows "sort_key (\<lambda>x. - f x) xs = rev (sort_key (f :: 'a \<Rightarrow> rat) xs)"
proof (rule map_sorted_distinct_set_unique [where f = "\<lambda>x. - f x"])
  have d: "distinct xs" and i: "inj_on f (set xs)"
    using assms by (simp_all add: distinct_map)
  have i': "inj_on (\<lambda>x. - f x) (set xs)"
    using i by (auto simp: inj_on_def)
  show "inj_on (\<lambda>x. - f x) (set (sort_key (\<lambda>x. - f x) xs) \<union> set (rev (sort_key f xs)))"
    using i' by simp
  show "sorted (map (\<lambda>x. - f x) (sort_key (\<lambda>x. - f x) xs))"
    by (rule sorted_sort_key)
  show "sorted (map (\<lambda>x. - f x) (rev (sort_key f xs)))"
    by (simp add: sorted_neg_rev rev_map)
  show "distinct (map (\<lambda>x. - f x) (sort_key (\<lambda>x. - f x) xs))"
    using d i' by (simp add: distinct_map)
  show "distinct (map (\<lambda>x. - f x) (rev (sort_key f xs)))"
    using d i' by (simp add: distinct_map)
  show "set (sort_key (\<lambda>x. - f x) xs) = set (rev (sort_key f xs))"
    by simp
qed

text \<open>
  C9.  When no two listings of the filtered set have the same price, the result of the
  search with \<open>price_desc\<close> is the reverse of its result with \<open>price_asc\<close>.
\<close>

theorem price_asc_desc_reversed:
  assumes "getListingsList Number c (filters\<lparr>sort_f := None\<rparr>)
             = Inr \<lparr>status = 200, body = ListingsJson fs ''mock''\<rparr>"
    and "distinct (map price fs)"
  shows "\<exists>rs. getListingsList Number c (filters\<lparr>sort_f := Some ''price_asc''\<rparr>)
                 = Inr \<lparr>status = 200, body = ListingsJson rs ''mock''\<rparr>
            \<and> getListingsList Number c (filters\<lparr>sort_f := Some ''price_desc''\<rparr>)
                 = Inr \<lparr>status = 200, body = ListingsJson (rev rs) ''mock''\<rparr>"
proof -
  obtain data where d: "env_MOCK_DATA c = Some data"
    using assms(1) by (cases "env_MOCK_DATA c") (simp_all add: getListingsList_def)
  have fs: "fs = filter_stage Number filters data"
    using assms(1) d by (simp add: getListingsList_Some)
  have "sort_stage (filters\<lparr>sort_f := Some ''price_desc''\<rparr>) fs
          = rev (sort_stage (filters\<lparr>sort_f := Some ''price_asc''\<rparr>) fs)"
    using sort_key_neg_rev [OF assms(2)] by (simp add: sort_stage_def js_sort_asc js_sort_desc)
  then show ?thesis
    using d by (simp add: getListingsList_Some fs)
qed

theorem price_asc_desc_reversed_witness:
  "getListingsList decimalNumber (mockCtx scenario) (noFilters\<lparr>sort_f := None\<rparr>)
     = Inr \<lparr>status = 200, body = ListingsJson scenario ''mock''\<rparr>
   \<and> distinct (map price scenario)
   \<and> (\<exists>rs. getListingsList decimalNumber (mockCtx scenario) (noFilters\<lparr>sort_f := Some ''price_asc''\<rparr>)
                 = Inr \<lparr>status = 200, body = ListingsJson rs ''mock''\<rparr>
            \<and> getListingsList decimalNumber (mockCtx scenario) (noFilters\<lparr>sort_f := Some ''price_desc''\<rparr>)
                 = Inr \<lparr>status = 200, body = ListingsJson (rev rs) ''mock''\<rparr>)"
proof -
  have h1: "getListingsList decimalNumber (mockCtx scenario) (noFilters\<lparr>sort_f := None\<rparr>)
     = Inr \<lparr>status = 200, body = ListingsJson scenario ''mock''\<rparr>"
    by code_simp
  have h2: "distinct (map price scenario)"
    by (simp add: scenario_def mkListing_def)
  show ?thesis
    using price_asc_desc_reversed [OF h1 h2] h1 h2 by simp
qed

text \<open>
  C10.  A padded \<open>q\<close> gives the same response as the trimmed one, and a \<open>q\<close> of white
  space only (or empty) gives the response of a missing \<open>q\<close>.  The trimmed string is
  \<open>q\<close> without a run of white space at either end, and it is the trimmed string,
  lower-cased, that the free-text filter looks for.
\<close>

theorem search_q_trimmed:
  "getListingsList Number c (filters\<lparr>q := Some s\<rparr>)
     = getListingsList Number c (filters\<lparr>q := Some (trim s)\<rparr>)
   \<and> (list_all isWhiteSpace s \<longrightarrow>
        getListingsList Number c (filters\<lparr>q := Some s\<rparr>)
          = getListingsList Number c (filters\<lparr>q := None\<rparr>))
   \<and> (\<exists>l r. s = l @ trim s @ r \<and> list_all isWhiteSpace l \<and> list_all isWhiteSpace r)
   \<and> (trim s \<noteq> [] \<longrightarrow> \<not> isWhiteSpace (hd (trim s)) \<and> \<not> isWhiteSpace (last (trim s)))
   \<and> (env_MOCK_DATA c = Some data \<and> \<not> list_all isWhiteSpace s \<longrightarrow>
        getListingsList Number c (noFilters\<lparr>q := Some s\<rparr>)
          = Inr \<lparr>status = 200,
                 body = ListingsJson
                   (filter (\<lambda>x. sublist (toLowerCase (trim s))
                      (toLowerCase (title x @ '' '' @ city x @ '' ''
                         @ (case address x of None \<Rightarrow> [] | Some a \<Rightarrow> a) @ '' '' @ type_l x))) data)
                   ''mock''\<rparr>)"
proof (intro conjI impI)
  show "getListingsList Number c (filters\<lparr>q := Some s\<rparr>)
     = getListingsList Number c (filters\<lparr>q := Some (trim s)\<rparr>)"
    by (simp add: getListingsList_def filter_stage_q_trim split: option.splits)
  show "getListingsList Number c (filters\<lparr>q := Some s\<rparr>)
          = getListingsList Number c (filters\<lparr>q := None\<rparr>)" if "list_all isWhiteSpace s"
    using that by (simp add: getListingsList_def filter_stage_q_blank split: option.splits)
  show "\<exists>l r. s = l @ trim s @ r \<and> list_all isWhiteSpace l \<and> list_all isWhiteSpace r"
    by (rule trim_decomp)
  show "\<not> isWhiteSpace (hd (trim s))" if "trim s \<noteq> []"
    using trim_ends [OF that] by simp
  show "\<not> isWhiteSpace (last (trim s))" if "trim s \<noteq> []"
    using trim_ends [OF that] by simp
  show "getListingsList Number c (noFilters\<lparr>q := Some s\<rparr>)
          = Inr \<lparr>status = 200,
                 body = ListingsJson
                   (filter (\<lambda>x. sublist (toLowerCase (trim s))
                      (toLowerCase (title x @ '' '' @ city x @ '' ''
                         @ (case address x of None \<Rightarrow> [] | Some a \<Rightarrow> a) @ '' '' @ type_l x))) data)
                   ''mock''\<rparr>"
    if "env_MOCK_DATA c = Some data \<and> \<not> list_all isWhiteSpace s"
    using that trim_blank [of s]
    by (simp add: getListingsList_Some filter_stage_nested sort_stage_def noFilters_def)
qed


theorem search_q_trimmed_witness:
  "list_all isWhiteSpace ''  ''
   \<and> getListingsList decimalNumber (mockCtx scenario) (noFilters\<lparr>q := Some ''  ''\<rparr>)
       = getListingsList decimalNumber (mockCtx scenario) (noFilters\<lparr>q := None\<rparr>)
   \<and> trim '' FLAT  '' = ''FLAT''
   \<and> env_MOCK_DATA (mockCtx scenario) = Some scenario
   \<and> \<not> list_all isWhiteSpace '' FLAT  ''
   \<and> getListingsList decimalNumber (mockCtx scenario) (noFilters\<lparr>q := Some '' FLAT  ''\<rparr>)
       = getListingsList decimalNumber (mockCtx scenario) (noFilters\<lparr>q := Some ''FLAT''\<rparr>)
   \<and> getListingsList decimalNumber (mockCtx scenario) (noFilters\<lparr>q := Some '' FLAT  ''\<rparr>)
       = Inr \<lparr>status = 200,
              body = ListingsJson [mkListing 1 ''One'' ''A'' ''flat'' 100,
                                   mkListing 3 ''Three'' ''B'' ''flat'' 150] ''mock''\<rparr>"
proof -
  have w: "list_all isWhiteSpace ''  ''" and nw: "\<not> list_all isWhiteSpace '' FLAT  ''"
    by (simp_all add: isWhiteSpace_def)
  have t: "trim '' FLAT  '' = ''FLAT''"
    by (simp add: trim_def isWhiteSpace_def)
  have h: "env_MOCK_DATA (mockCtx scenario) = Some scenario"
    by (simp add: mockCtx_def)
  have e: "filter (\<lambda>x. sublist (toLowerCase ''FLAT'')
                      (toLowerCase (title x @ '' '' @ city x @ '' ''
                         @ (case address x of None \<Rightarrow> [] | Some a \<Rightarrow> a) @ '' '' @ type_l x))) scenario
      = [mkListing 1 ''One'' ''A'' ''flat'' 100, mkListing 3 ''Three'' ''B'' ''flat'' 150]"
    by code_simp
  note blank = search_q_trimmed [where Number = decimalNumber and c = "mockCtx scenario"
        and filters = noFilters and s = "''  ''" and data = scenario]
  note padded = search_q_trimmed [where Number = decimalNumber and c = "mockCtx scenario"
        and filters = noFilters and s = "'' FLAT  ''" and data = scenario]
  have c2: "getListingsList decimalNumber (mockCtx scenario) (noFilters\<lparr>q := Some ''  ''\<rparr>)
       = getListingsList decimalNumber (mockCtx scenario) (noFilters\<lparr>q := None\<rparr>)"
    using blank w by blast
  have c6: "getListingsList decimalNumber (mockCtx scenario) (noFilters\<lparr>q := Some '' FLAT  ''\<rparr>)
       = getListingsList decimalNumber (mockCtx scenario) (noFilters\<lparr>q := Some (trim '' FLAT  '')\<rparr>)"
    using padded by blast
  have c7: "getListingsList decimalNumber (mockCtx scenario) (noFilters\<lparr>q := Some '' FLAT  ''\<rparr>)
       = Inr \<lparr>status = 200,
              body = ListingsJson
                (filter (\<lambda>x. sublist (toLowerCase (trim '' FLAT  ''))
                      (toLowerCase (title x @ '' '' @ city x @ '' ''
                         @ (case address x of None \<Rightarrow> [] | Some a \<Rightarrow> a) @ '' '' @ type_l x))) scenario)
                ''mock''\<rparr>"
    using padded h nw by blast
  show ?thesis
    using w c2 t h nw c6 [unfolded t] c7 [unfolded t e] by (intro conjI)
qed

section \<open>Related listings\<close>

lemma expo_examples: "expo 9007199254740993 = 1" "expo 18014398509481983 = 1"
  by (simp_all add: expo.simps)

lemma toDouble_examples:
  "toDouble 9007199254740993 = Some 9007199254740992"
  "toDouble 18014398509481983 = Some 18014398509481984"
  "toDouble 18014398509481984 = Some 18014398509481984"
  by (simp_all add: toDouble_def expo_examples expo.simps)

lemma intDouble_examples:
  "intDouble 50 = 50" "intDouble 100 = 100"
  "intDouble (- 18014398509481984) = - 18014398509481984"
  "intDouble (- 18014398509481983) = - 18014398509481984"
  by (simp_all add: intDouble_def toDouble_small toDouble_examples)

lemma not_numeric_1abc: "\<not> spec_numeric ''1abc''"
  by (simp add: spec_numeric_def isDigit_def)

lemma parseInt_examples:
  "parseInt ''1'' = Some 1" "parseInt ''1abc'' = Some 1" "parseInt ''abc'' = None"
  by (simp_all add: parseInt_def isWhiteSpace_def isDigit_def digitsValue_def digitValue_def
      toDouble_small)

lemma parseInt_rounds: "parseInt ''9007199254740993'' = Some 9007199254740992"
  by (simp add: parseInt_def isWhiteSpace_def isDigit_def digitsValue_def digitValue_def
      toDouble_examples)

lemma stats_A: "stats [''A'', ''A'', ''B''] = Some [(''A'', 2), (''B'', 1)]"
  by (simp add: stats_def count_key_def obj_get_def obj_set_def objectPrototypeKeys_def isArrayIndex_def isDigit_def js_sort_def)

lemma stats_flat: "stats [''flat'', ''house'', ''flat''] = Some [(''flat'', 2), (''house'', 1)]"
  by (simp add: stats_def count_key_def obj_get_def obj_set_def objectPrototypeKeys_def isArrayIndex_def isDigit_def js_sort_def)

lemma stats_AAA: "stats [''A'', ''A'', ''A''] = Some [(''A'', 3)]"
  by (simp add: stats_def count_key_def obj_get_def obj_set_def objectPrototypeKeys_def isArrayIndex_def isDigit_def js_sort_def)

lemma stats_flat3: "stats [''flat'', ''flat'', ''flat''] = Some [(''flat'', 3)]"
  by (simp add: stats_def count_key_def obj_get_def obj_set_def objectPrototypeKeys_def isArrayIndex_def isDigit_def js_sort_def)

lemma related_1abc: "getRelatedListingData intDouble (mockCtx scenario) ''1abc''
   = Inr \<lparr>status = 200,
          body = RelatedJson
            \<lparr>listingId = ''1abc'', listingCity = ''A'', listingType = ''flat'',
             relatedInCity = [mkListing 2 ''Two'' ''A'' ''house'' 200],
             relatedByType = [mkListing 3 ''Three'' ''B'' ''flat'' 150],
             similarPrice = [mkListing 3 ''Three'' ''B'' ''flat'' 150, mkListing 2 ''Two'' ''A'' ''house'' 200],
             cityStats = Some [(''A'', 2), (''B'', 1)],
             typeStats = Some [(''flat'', 2), (''house'', 1)]\<rparr> ''mock''\<rparr>"
  by (simp add: getRelatedListingData_def Let_def mockCtx_def scenario_def mkListing_def
      parseInt_examples stats_A stats_flat js_sort_def intDouble_examples)

lemma insort_key_cong_on:
  assumes "f x = g x" and "\<And>y. y \<in> set ys \<Longrightarrow> f y = g y"
  shows "insort_key f x ys = insort_key g x ys"
  using assms by (induction ys) auto

lemma sort_key_cong_on:
  assumes "\<And>x. x \<in> set xs \<Longrightarrow> f x = g x"
  shows "sort_key f xs = sort_key g xs"
  using assms by (induction xs) (auto intro: insort_key_cong_on)

lemma find_Some_D: "find P xs = Some y \<Longrightarrow> P y \<and> y \<in> set xs"
  by (induction xs) (auto split: if_splits)

lemma getRelatedListingData_missing:
  assumes "env_MOCK_DATA c = Some data"
    and "find (\<lambda>x. Some (id_l x) = parseInt s) data = None"
  shows "getRelatedListingData fl c s = Inr \<lparr>status = 404, body = ErrorJson ''Listing not found''\<rparr>"
  using assms by (simp add: getRelatedListingData_def)

lemma getRelatedListingData_found:
  assumes "env_MOCK_DATA c = Some data"
    and "find (\<lambda>x. Some (id_l x) = parseInt s) data = Some t"
  shows "getRelatedListingData fl c s =
    Inr \<lparr>status = 200,
         body = RelatedJson
           \<lparr>listingId = s, listingCity = city t, listingType = type_l t,
            relatedInCity = take 3 (filter (\<lambda>x. city x = city t \<and> Some (id_l x) \<noteq> parseInt s) data),
            relatedByType = take 3 (filter (\<lambda>x. type_l x = type_l t \<and> Some (id_l x) \<noteq> parseInt s) data),
            similarPrice = take 3 (sort_key (\<lambda>x. \<bar>fl (price x - price t)\<bar>)
                                     (filter (\<lambda>x. Some (id_l x) \<noteq> parseInt s) data)),
            cityStats = stats (map city data), typeStats = stats (map type_l data)\<rparr>
           ''mock''\<rparr>"
  using assms
  by (simp add: getRelatedListingData_def Let_def js_sort_asc [where f = "\<lambda>x. \<bar>fl (price x - price t)\<bar>"])

lemma parseInt_prefix:
  assumes "list_all isWhiteSpace ws" and "sg = [] \<or> sg = ''+'' \<or> sg = ''-''"
    and "sg \<noteq> [] \<or> r = [] \<or> (\<not> isWhiteSpace (hd r) \<and> hd r \<noteq> CHR ''+'' \<and> hd r \<noteq> CHR ''-'')"
  shows "parseInt (ws @ sg @ r)
           = (if takeWhile isDigit r = [] then None
              else case toDouble (digitsValue (takeWhile isDigit r)) of
                     None \<Rightarrow> None
                   | Some m \<Rightarrow> Some ((if sg = ''-'' then - 1 else 1) * int m))"
proof -
  have "dropWhile isWhiteSpace (ws @ sg @ r) = dropWhile isWhiteSpace (sg @ r)"
    using assms(1) by (simp add: list_all_iff dropWhile_append2)
  also have "\<dots> = sg @ r"
    using assms(2,3) by (cases r) (auto simp add: isWhiteSpace_def)
  finally have S: "dropWhile isWhiteSpace (ws @ sg @ r) = sg @ r" .
  have S': "(if sg @ r \<noteq> [] \<and> (hd (sg @ r) = CHR ''+'' \<or> hd (sg @ r) = CHR ''-'')
             then tl (sg @ r) else sg @ r) = r"
    using assms(2,3) by (cases r) auto
  have sign: "(if sg @ r \<noteq> [] \<and> hd (sg @ r) = CHR ''-'' then - 1 else 1 :: int)
      = (if sg = ''-'' then - 1 else 1)"
    using assms(2,3) by (cases r) auto
  show ?thesis
    unfolding parseInt_def Let_def S S' sign by (rule refl)
qed

lemma parseInt_no_digit:
  assumes "list_all isWhiteSpace ws" and "sg = [] \<or> sg = ''+'' \<or> sg = ''-''"
    and "r = [] \<or> (\<not> isDigit (hd r) \<and>
           (sg \<noteq> [] \<or> (\<not> isWhiteSpace (hd r) \<and> hd r \<noteq> CHR ''+'' \<and> hd r \<noteq> CHR ''-'')))"
  shows "parseInt (ws @ sg @ r) = None"
proof -
  have "takeWhile isDigit r = []"
    using assms(3) by (cases r) auto
  moreover have "sg \<noteq> [] \<or> r = [] \<or> (\<not> isWhiteSpace (hd r) \<and> hd r \<noteq> CHR ''+'' \<and> hd r \<noteq> CHR ''-'')"
    using assms(3) by blast
  ultimately show ?thesis
    using parseInt_prefix [OF assms(1,2)] by simp
qed

lemma parseInt_digits_rounded:
  assumes "list_all isWhiteSpace ws" and "sg = [] \<or> sg = ''+'' \<or> sg = ''-''"
    and "ds \<noteq> []" and "list_all isDigit ds" and "rest = [] \<or> \<not> isDigit (hd rest)"
  shows "parseInt (ws @ sg @ ds @ rest)
           = (case toDouble (digitsValue ds) of
                None \<Rightarrow> None
              | Some m \<Rightarrow> Some ((if sg = ''-'' then - 1 else 1) * int m))"
proof -
  have tw: "takeWhile isDigit (ds @ rest) = ds"
    using assms(4,5) by (cases rest) (auto simp: list_all_iff takeWhile_append2 takeWhile_eq_all_conv)
  have "isDigit (hd (ds @ rest))"
    using assms(3,4) by (cases ds) auto
  then have "\<not> isWhiteSpace (hd (ds @ rest)) \<and> hd (ds @ rest) \<noteq> CHR ''+'' \<and> hd (ds @ rest) \<noteq> CHR ''-''"
    by (auto simp: isDigit_def isWhiteSpace_def)
  then show ?thesis
    using parseInt_prefix [OF assms(1,2), where r = "ds @ rest"] assms(3) by (simp add: tw)
qed

lemma parseInt_digits:
  assumes "list_all isWhiteSpace ws" and "sg = [] \<or> sg = ''+'' \<or> sg = ''-''"
    and "ds \<noteq> []" and "list_all isDigit ds" and "rest = [] \<or> \<not> isDigit (hd rest)"
    and "digitsValue ds < 2 ^ 53"
  shows "parseInt (ws @ sg @ ds @ rest) = Some ((if sg = ''-'' then - 1 else 1) * int (digitsValue ds))"
  using parseInt_digits_rounded [OF assms(1-5)] assms(6) by (simp add: toDouble_small)

text \<open>
  C5, as the code has it.  With a collection in the environment the related handler
  never fails.  The id it looks up is what \<open>parseInt\<close> makes of the input.  An input is
  white space \<open>ws\<close>, then at most one sign \<open>sg\<close>, then the rest.  When the rest begins
  with a run of digits \<open>ds\<close>, whatever follows the run is ignored, and the outcome is,
  with the sign, the double nearest to the integer that \<open>ds\<close> denotes: the integer itself
  below \<open>2^53\<close>, and no number once the run is beyond the range of the doubles.  When the
  rest does not begin with a digit, the outcome is no number.  The handler answers 404
  \<open>Listing not found\<close> exactly when \<open>parseInt\<close> yields no number, or no listing has the
  number as its id.  So an input with no digit at that place is always answered with
  404, while an id like \<open>1abc\<close> is looked up as 1.
\<close>

theorem related_not_found:
  assumes "env_MOCK_DATA c = Some data"
  shows "(getRelatedListingData fl c s = Inr \<lparr>status = 404, body = ErrorJson ''Listing not found''\<rparr>
           \<longleftrightarrow> parseInt s = None \<or> (\<forall>x\<in>set data. Some (id_l x) \<noteq> parseInt s))
     \<and> (\<exists>r. getRelatedListingData fl c s = Inr r)
     \<and> (list_all isWhiteSpace ws \<and> (sg = [] \<or> sg = ''+'' \<or> sg = ''-'') \<longrightarrow>
          (rest = [] \<or> (\<not> isDigit (hd rest) \<and>
              (sg \<noteq> [] \<or> (\<not> isWhiteSpace (hd rest) \<and> hd rest \<noteq> CHR ''+'' \<and> hd rest \<noteq> CHR ''-'')))
             \<longrightarrow> parseInt (ws @ sg @ rest) = None)
        \<and> (ds \<noteq> [] \<and> list_all isDigit ds \<and> (rest = [] \<or> \<not> isDigit (hd rest))
             \<longrightarrow> parseInt (ws @ sg @ ds @ rest)
                   = (case toDouble (digitsValue ds) of
                        None \<Rightarrow> None
                      | Some m \<Rightarrow> Some ((if sg = ''-'' then - 1 else 1) * int m))
               \<and> (digitsValue ds < 2 ^ 53 \<longrightarrow>
                    parseInt (ws @ sg @ ds @ rest)
                      = Some ((if sg = ''-'' then - 1 else 1) * int (digitsValue ds)))))"
proof (intro conjI)
  show "getRelatedListingData fl c s = Inr \<lparr>status = 404, body = ErrorJson ''Listing not found''\<rparr>
           \<longleftrightarrow> parseInt s = None \<or> (\<forall>x\<in>set data. Some (id_l x) \<noteq> parseInt s)"
  proof (cases "find (\<lambda>x. Some (id_l x) = parseInt s) data")
    case None
    then have "\<forall>x\<in>set data. Some (id_l x) \<noteq> parseInt s"
      by (simp add: find_None_iff2)
    then show ?thesis
      using getRelatedListingData_missing [OF assms None] by simp
  next
    case (Some t)
    from find_Some_D [OF Some] have "Some (id_l t) = parseInt s" and "t \<in> set data"
      by simp_all
    then have "\<not> (parseInt s = None \<or> (\<forall>x\<in>set data. Some (id_l x) \<noteq> parseInt s))"
      by (metis option.distinct(1))
    then show ?thesis
      using getRelatedListingData_found [OF assms Some] by simp
  qed
  show "\<exists>r. getRelatedListingData fl c s = Inr r"
    using getRelatedListingData_missing [OF assms] getRelatedListingData_found [OF assms]
    by (cases "find (\<lambda>x. Some (id_l x) = parseInt s) data") auto
  show "list_all isWhiteSpace ws \<and> (sg = [] \<or> sg = ''+'' \<or> sg = ''-'') \<longrightarrow>
          (rest = [] \<or> (\<not> isDigit (hd rest) \<and>
              (sg \<noteq> [] \<or> (\<not> isWhiteSpace (hd rest) \<and> hd rest \<noteq> CHR ''+'' \<and> hd rest \<noteq> CHR ''-'')))
             \<longrightarrow> parseInt (ws @ sg @ rest) = None)
        \<and> (ds \<noteq> [] \<and> list_all isDigit ds \<and> (rest = [] \<or> \<not> isDigit (hd rest))
             \<longrightarrow> parseInt (ws @ sg @ ds @ rest)
                   = (case toDouble (digitsValue ds) of
                        None \<Rightarrow> None
                      | Some m \<Rightarrow> Some ((if sg = ''-'' then - 1 else 1) * int m))
               \<and> (digitsValue ds < 2 ^ 53 \<longrightarrow>
                    parseInt (ws @ sg @ ds @ rest)
                      = Some ((if sg = ''-'' then - 1 else 1) * int (digitsValue ds))))"
  proof (intro impI conjI; elim conjE)
    assume w: "list_all isWhiteSpace ws" and g: "sg = [] \<or> sg = ''+'' \<or> sg = ''-''"
    show "parseInt (ws @ sg @ rest) = None"
      if "rest = [] \<or> (\<not> isDigit (hd rest) \<and>
              (sg \<noteq> [] \<or> (\<not> isWhiteSpace (hd rest) \<and> hd rest \<noteq> CHR ''+'' \<and> hd rest \<noteq> CHR ''-'')))"
      using parseInt_no_digit [OF w g that] .
    show "parseInt (ws @ sg @ ds @ rest)
                   = (case toDouble (digitsValue ds) of
                        None \<Rightarrow> None
                      | Some m \<Rightarrow> Some ((if sg = ''-'' then - 1 else 1) * int m))"
      if "ds \<noteq> []" and "list_all isDigit ds" and "rest = [] \<or> \<not> isDigit (hd rest)"
      using parseInt_digits_rounded [OF w g that] .
    show "parseInt (ws @ sg @ ds @ rest)
                      = Some ((if sg = ''-'' then - 1 else 1) * int (digitsValue ds))"
      if "ds \<noteq> []" and "list_all isDigit ds" and "rest = [] \<or> \<not> isDigit (hd rest)"
        and "digitsValue ds < 2 ^ 53"
      using parseInt_digits [OF w g that] .
  qed
qed

theorem related_not_found_witness:
  "env_MOCK_DATA (mockCtx scenario) = Some scenario
   \<and> list_all isWhiteSpace '' '' \<and> ''-'' \<noteq> []
   \<and> \<not> isDigit (hd ''abc'')
   \<and> parseInt ('' '' @ ''-'' @ ''abc'') = None
   \<and> getRelatedListingData intDouble (mockCtx scenario) '' -abc''
       = Inr \<lparr>status = 404, body = ErrorJson ''Listing not found''\<rparr>
   \<and> ''1'' \<noteq> [] \<and> list_all isDigit ''1''
   \<and> digitsValue ''1'' < 2 ^ 53
   \<and> parseInt ('' '' @ ''-'' @ ''1'' @ ''abc'') = Some (- 1 * int (digitsValue ''1''))
   \<and> parseInt ''9007199254740993'' = Some 9007199254740992"
proof -
  have h: "env_MOCK_DATA (mockCtx scenario) = Some scenario"
    by (simp add: mockCtx_def)
  have a: "list_all isWhiteSpace '' ''" "''-'' \<noteq> []" "\<not> isDigit (hd ''abc'')"
    by (simp_all add: isDigit_def isWhiteSpace_def)
  have d: "''1'' \<noteq> []" "list_all isDigit ''1''" "digitsValue ''1'' < 2 ^ 53"
    by (simp_all add: isDigit_def digitsValue_def digitValue_def)
  note abc = related_not_found [OF h, where fl = intDouble and s = "'' -abc''" and ws = "'' ''"
      and sg = "''-''" and ds = "''1''" and rest = "''abc''"]
  have p: "parseInt ('' '' @ ''-'' @ ''abc'') = None"
    using abc a by blast
  then have "parseInt '' -abc'' = None"
    by simp
  then have nf: "getRelatedListingData intDouble (mockCtx scenario) '' -abc''
       = Inr \<lparr>status = 404, body = ErrorJson ''Listing not found''\<rparr>"
    using abc by blast
  have "parseInt ('' '' @ ''-'' @ ''1'' @ ''abc'')
      = Some ((if ''-'' = ''-'' then - 1 else 1) * int (digitsValue ''1''))"
    using abc a d by blast
  then have one: "parseInt ('' '' @ ''-'' @ ''1'' @ ''abc'') = Some (- 1 * int (digitsValue ''1''))"
    by simp
  show ?thesis
    using h a d p nf one parseInt_rounds by simp
qed

text \<open>
  C5 as stated fails: the id \<open>1abc\<close> is not numeric, yet on the scenario collection the
  related handler answers with the bundle of listing 1, not with 404.
\<close>

theorem related_non_numeric_counterexample:
  "\<not> spec_numeric ''1abc''
   \<and> getRelatedListingData intDouble (mockCtx scenario) ''1abc''
   = Inr \<lparr>status = 200,
          body = RelatedJson
            \<lparr>listingId = ''1abc'', listingCity = ''A'', listingType = ''flat'',
             relatedInCity = [mkListing 2 ''Two'' ''A'' ''house'' 200],
             relatedByType = [mkListing 3 ''Three'' ''B'' ''flat'' 150],
             similarPrice = [mkListing 3 ''Three'' ''B'' ''flat'' 150, mkListing 2 ''Two'' ''A'' ''house'' 200],
             cityStats = Some [(''A'', 2), (''B'', 1)],
             typeStats = Some [(''flat'', 2), (''house'', 1)]\<rparr> ''mock''\<rparr>"
  using not_numeric_1abc related_1abc by simp

text \<open>
  C6, as the code has it.  For an id that parses to \<open>n\<close> and a collection whose first
  listing with that id is \<open>t\<close>: the same-city and same-type lists are the first three
  listings of the collection, in its order, that share the city (the type) of \<open>t\<close> and
  have another id; the similar-price list holds the first three of the listings with
  another id, ranked by the absolute difference of their price from the price of \<open>t\<close>
  \<^emph>\<open>as a double\<close>, that is, of the exact difference rounded by \<open>fl\<close>.  The ranking is
  ascending in that rounded difference, a rearrangement of those listings, and stable:
  listings with the same rounded difference keep the order of the collection.  None of
  the three lists has more than three elements or an element with the id \<open>n\<close>.  When
  every difference is a double as it is, the similar-price list is the one the
  specification words.
\<close>

theorem related_lists:
  assumes "env_MOCK_DATA c = Some data" and "parseInt s = Some n"
    and "find (\<lambda>x. id_l x = n) data = Some t"
  shows "\<exists>r. getRelatedListingData fl c s = Inr \<lparr>status = 200, body = RelatedJson r ''mock''\<rparr>
     \<and> listingCity r = city t \<and> listingType r = type_l t
     \<and> relatedInCity r = take 3 (filter (\<lambda>x. city x = city t \<and> id_l x \<noteq> n) data)
     \<and> relatedByType r = take 3 (filter (\<lambda>x. type_l x = type_l t \<and> id_l x \<noteq> n) data)
     \<and> similarPrice r = take 3 (sort_key (\<lambda>x. \<bar>fl (price x - price t)\<bar>) (filter (\<lambda>x. id_l x \<noteq> n) data))
     \<and> sorted (map (\<lambda>x. \<bar>fl (price x - price t)\<bar>)
               (sort_key (\<lambda>x. \<bar>fl (price x - price t)\<bar>) (filter (\<lambda>x. id_l x \<noteq> n) data)))
     \<and> mset (sort_key (\<lambda>x. \<bar>fl (price x - price t)\<bar>) (filter (\<lambda>x. id_l x \<noteq> n) data))
          = mset (filter (\<lambda>x. id_l x \<noteq> n) data)
     \<and> (\<forall>k. filter (\<lambda>x. \<bar>fl (price x - price t)\<bar> = k)
               (sort_key (\<lambda>x. \<bar>fl (price x - price t)\<bar>) (filter (\<lambda>x. id_l x \<noteq> n) data))
            = filter (\<lambda>x. \<bar>fl (price x - price t)\<bar> = k) (filter (\<lambda>x. id_l x \<noteq> n) data))
     \<and> (\<forall>l \<in> {relatedInCity r, relatedByType r, similarPrice r}.
            length l \<le> 3 \<and> (\<forall>x\<in>set l. id_l x \<noteq> n))
     \<and> ((\<forall>x\<in>set data. fl (price x - price t) = price x - price t)
            \<longrightarrow> similarPrice r = spec_similarPrice t n data)"
proof -
  have f: "find (\<lambda>x. Some (id_l x) = parseInt s) data = Some t"
    using assms(2,3) by simp
  have exact: "sort_key (\<lambda>x. \<bar>fl (price x - price t)\<bar>) (filter (\<lambda>x. id_l x \<noteq> n) data)
      = sort_key (\<lambda>x. \<bar>price x - price t\<bar>) (filter (\<lambda>x. id_l x \<noteq> n) data)"
    if "\<forall>x\<in>set data. fl (price x - price t) = price x - price t"
    using that by (intro sort_key_cong_on) simp
  show ?thesis
    unfolding getRelatedListingData_found [OF assms(1) f]
    by (auto simp add: assms(2) sort_key_stable spec_similarPrice_def exact dest!: in_set_takeD)
qed

theorem related_lists_witness:
  "env_MOCK_DATA (mockCtx scenario) = Some scenario
   \<and> parseInt ''1'' = Some 1
   \<and> find (\<lambda>x. id_l x = 1) scenario = Some (mkListing 1 ''One'' ''A'' ''flat'' 100)
   \<and> list_all (\<lambda>x. intDouble (price x - price (mkListing 1 ''One'' ''A'' ''flat'' 100))
                      = price x - price (mkListing 1 ''One'' ''A'' ''flat'' 100)) scenario
   \<and> (\<exists>r. getRelatedListingData intDouble (mockCtx scenario) ''1''
              = Inr \<lparr>status = 200, body = RelatedJson r ''mock''\<rparr>
          \<and> relatedInCity r = [mkListing 2 ''Two'' ''A'' ''house'' 200]
          \<and> relatedByType r = [mkListing 3 ''Three'' ''B'' ''flat'' 150]
          \<and> similarPrice r = [mkListing 3 ''Three'' ''B'' ''flat'' 150,
                               mkListing 2 ''Two'' ''A'' ''house'' 200])"
proof -
  have h: "env_MOCK_DATA (mockCtx scenario) = Some scenario"
    by (simp add: mockCtx_def)
  have p: "parseInt ''1'' = Some 1"
    by (rule parseInt_examples)
  have f: "find (\<lambda>x. id_l x = 1) scenario = Some (mkListing 1 ''One'' ''A'' ''flat'' 100)"
    by (simp add: scenario_def mkListing_def)
  have x: "\<forall>x\<in>set scenario. intDouble (price x - price (mkListing 1 ''One'' ''A'' ''flat'' 100))
                      = price x - price (mkListing 1 ''One'' ''A'' ''flat'' 100)"
    by (simp add: scenario_def mkListing_def intDouble_examples intDouble_def toDouble_small)
  have e1: "take 3 (filter (\<lambda>x. city x = city (mkListing 1 ''One'' ''A'' ''flat'' 100) \<and> id_l x \<noteq> 1) scenario)
      = [mkListing 2 ''Two'' ''A'' ''house'' 200]"
    by (simp add: scenario_def mkListing_def)
  have e2: "take 3 (filter (\<lambda>x. type_l x = type_l (mkListing 1 ''One'' ''A'' ''flat'' 100) \<and> id_l x \<noteq> 1) scenario)
      = [mkListing 3 ''Three'' ''B'' ''flat'' 150]"
    by (simp add: scenario_def mkListing_def)
  have e3: "spec_similarPrice (mkListing 1 ''One'' ''A'' ''flat'' 100) 1 scenario
      = [mkListing 3 ''Three'' ''B'' ''flat'' 150, mkListing 2 ''Two'' ''A'' ''house'' 200]"
    by (simp add: spec_similarPrice_def scenario_def mkListing_def)
  from related_lists [OF h p f, where fl = intDouble] x obtain r where
    r: "getRelatedListingData intDouble (mockCtx scenario) ''1''
          = Inr \<lparr>status = 200, body = RelatedJson r ''mock''\<rparr>"
      "relatedInCity r = take 3 (filter (\<lambda>x. city x = city (mkListing 1 ''One'' ''A'' ''flat'' 100) \<and> id_l x \<noteq> 1) scenario)"
      "relatedByType r = take 3 (filter (\<lambda>x. type_l x = type_l (mkListing 1 ''One'' ''A'' ''flat'' 100) \<and> id_l x \<noteq> 1) scenario)"
      "similarPrice r = spec_similarPrice (mkListing 1 ''One'' ''A'' ''flat'' 100) 1 scenario"
    by blast
  show ?thesis
    using h p f x r by (simp only: e1 e2 e3 list_all_iff) blast
qed

text \<open>
  C6 as stated fails: around a target price of \<open>2^54\<close>, the prices 0 and 1 have the
  exact differences \<open>2^54\<close> and \<open>2^54 - 1\<close>, so that the listing priced 1 is the nearer
  one; but \<open>1 - 2^54\<close> is no double and is rounded to \<open>- 2^54\<close>, the two differences are
  equal for the sort, and the list keeps the order of the collection.
\<close>

theorem similar_price_rounding_counterexample:
  "spec_similarPrice (mkListing 1 ''One'' ''A'' ''flat'' 18014398509481984) 1 bigPrices
     = [mkListing 3 ''Three'' ''A'' ''flat'' 1, mkListing 2 ''Two'' ''A'' ''flat'' 0]
   \<and> getRelatedListingData intDouble (mockCtx bigPrices) ''1''
     = Inr \<lparr>status = 200,
            body = RelatedJson
              \<lparr>listingId = ''1'', listingCity = ''A'', listingType = ''flat'',
               relatedInCity = [mkListing 2 ''Two'' ''A'' ''flat'' 0, mkListing 3 ''Three'' ''A'' ''flat'' 1],
               relatedByType = [mkListing 2 ''Two'' ''A'' ''flat'' 0, mkListing 3 ''Three'' ''A'' ''flat'' 1],
               similarPrice = [mkListing 2 ''Two'' ''A'' ''flat'' 0, mkListing 3 ''Three'' ''A'' ''flat'' 1],
               cityStats = Some [(''A'', 3)],
               typeStats = Some [(''flat'', 3)]\<rparr> ''mock''\<rparr>"
  by (simp add: spec_similarPrice_def getRelatedListingData_def Let_def mockCtx_def bigPrices_def
      mkListing_def parseInt_examples stats_AAA stats_flat3 js_sort_def intDouble_examples)


section \<open>Statistics of the related listings\<close>

lemma mset_obj_insert: "mset (obj_insert k v obj) = add_mset (k, v) (mset obj)"
  by (induction obj) auto

lemma set_obj_insert: "set (obj_insert k v obj) = insert (k, v) (set obj)"
  using mset_obj_insert [of k v obj] by (metis set_mset_add_mset_insert set_mset_mset)

lemma distinct_keys_obj_insert:
  "distinct (map fst (obj_insert k v obj)) \<longleftrightarrow> k \<notin> fst ` set obj \<and> distinct (map fst obj)"
proof -
  have "mset (map fst (obj_insert k v obj)) = mset (map fst ((k, v) # obj))"
    by (simp add: mset_obj_insert)
  then have "distinct (map fst (obj_insert k v obj)) = distinct (map fst ((k, v) # obj))"
    by (rule mset_eq_imp_distinct_iff)
  then show ?thesis by simp
qed

lemma obj_insert_plain: "\<not> isArrayIndex k \<Longrightarrow> obj_insert k v obj = obj @ [(k, v)]"
  by (induction obj) auto

lemma count_key_new:
  assumes "k \<notin> set objectPrototypeKeys" and "k \<notin> fst ` set obj"
  shows "count_key k obj = obj_insert k (Num 1) obj"
proof -
  have "map_of obj k = None"
    using assms(2) by (simp add: map_of_eq_None_iff)
  moreover have "k \<noteq> ''__proto__''"
    using assms(1) by (auto simp: objectPrototypeKeys_def)
  ultimately show ?thesis
    using assms by (simp add: count_key_def obj_get_def obj_set_def)
qed

lemma count_key_old:
  assumes "k \<notin> set objectPrototypeKeys" and "map_of obj k = Some (Num n)"
  shows "count_key k obj = map (\<lambda>(k', v'). if k' = k then (k', Num (Suc n)) else (k', v')) obj"
proof -
  have "k \<in> fst ` set obj"
    using assms(2) by (metis map_of_eq_None_iff option.distinct(1))
  moreover have "k \<noteq> ''__proto__''"
    using assms(1) by (auto simp: objectPrototypeKeys_def)
  ultimately show ?thesis
    using assms by (simp add: count_key_def obj_get_def obj_set_def)
qed

lemma map_fst_replace:
  "map fst (map (\<lambda>(k', v'). if k' = k then (k', v) else (k', v')) obj) = map fst obj"
  by (simp add: case_prod_beta)

lemma map_of_replace_same:
  "k \<in> fst ` set obj \<Longrightarrow>
   map_of (map (\<lambda>(k', v'). if k' = k then (k', v) else (k', v')) obj) k = Some v"
  by (induction obj) (auto simp add: case_prod_beta)

lemma map_of_replace_other:
  "k' \<noteq> k \<Longrightarrow>
   map_of (map (\<lambda>(k', v'). if k' = k then (k', v) else (k', v')) obj) k' = map_of obj k'"
  by (induction obj) (auto simp add: case_prod_beta)

lemma map_of_obj_insert:
  assumes "k \<notin> fst ` set obj" and "distinct (map fst obj)"
  shows "map_of (obj_insert k v obj) k' = (if k' = k then Some v else map_of obj k')"
proof -
  have d: "distinct (map fst (obj_insert k v obj))"
    using assms by (simp add: distinct_keys_obj_insert)
  show ?thesis
  proof (cases "k' = k")
    case True
    then show ?thesis
      using d by (simp add: set_obj_insert)
  next
    case False
    have "map_of (obj_insert k v obj) k' = Some w \<longleftrightarrow> map_of obj k' = Some w" for w
      using d assms(2) False by (simp add: set_obj_insert)
    then show ?thesis
      using False by (metis option.exhaust)
  qed
qed


lemma firstOccurrences_snoc:
  "firstOccurrences (p @ [k]) = (if k \<in> set p then firstOccurrences p else firstOccurrences p @ [k])"
  by (simp add: firstOccurrences_def)

lemma set_firstOccurrences [simp]: "set (firstOccurrences xs) = set xs"
  by (simp add: firstOccurrences_def)

lemma distinct_firstOccurrences [simp]: "distinct (firstOccurrences xs)"
  by (simp add: firstOccurrences_def)

text \<open>One round of the counting loop keeps what the object stands for: after the keys
  \<open>p\<close>, none of them inherited, it has one own property for each distinct key, holding
  the number of its occurrences; without array indices its keys are in the order of
  first occurrence.\<close>

lemma count_key_step:
  assumes k: "k \<notin> set objectPrototypeKeys"
    and d: "distinct (map fst obj)"
    and s: "fst ` set obj = set p"
    and m: "\<forall>j\<in>set p. map_of obj j = Some (Num (count_list p j))"
  shows "distinct (map fst (count_key k obj))
    \<and> fst ` set (count_key k obj) = set (p @ [k])
    \<and> (\<forall>j\<in>set (p @ [k]). map_of (count_key k obj) j = Some (Num (count_list (p @ [k]) j)))
    \<and> (\<not> isArrayIndex k \<and> map fst obj = firstOccurrences p
           \<longrightarrow> map fst (count_key k obj) = firstOccurrences (p @ [k]))"
proof (cases "k \<in> set p")
  case True
  then have old: "map_of obj k = Some (Num (count_list p k))"
    using m by simp
  note ck = count_key_old [OF k old]
  have kin: "k \<in> fst ` set obj"
    using True s by simp
  have 1: "distinct (map fst (count_key k obj))"
    using d by (simp only: ck map_fst_replace)
  have "set (map fst (count_key k obj)) = set (map fst obj)"
    by (simp only: ck map_fst_replace)
  then have 2: "fst ` set (count_key k obj) = set (p @ [k])"
    using s True by auto
  have 3: "\<forall>j\<in>set (p @ [k]). map_of (count_key k obj) j = Some (Num (count_list (p @ [k]) j))"
  proof
    fix j assume "j \<in> set (p @ [k])"
    then have j: "j \<in> set p" using True by auto
    show "map_of (count_key k obj) j = Some (Num (count_list (p @ [k]) j))"
    proof (cases "j = k")
      case True
      then show ?thesis
        using map_of_replace_same [OF kin] by (simp add: ck)
    next
      case False
      then show ?thesis
        using m j by (simp add: ck map_of_replace_other)
    qed
  qed
  have 4: "map fst (count_key k obj) = firstOccurrences (p @ [k])"
    if "map fst obj = firstOccurrences p"
    using that True by (simp only: ck map_fst_replace firstOccurrences_snoc if_True)
  show ?thesis
    using 1 2 3 4 by blast
next
  case False
  then have knew: "k \<notin> fst ` set obj"
    using s by simp
  note ck = count_key_new [OF k knew]
  have 1: "distinct (map fst (count_key k obj))"
    using d knew by (simp add: ck distinct_keys_obj_insert)
  have 2: "fst ` set (count_key k obj) = set (p @ [k])"
    using s by (simp add: ck set_obj_insert)
  have 3: "\<forall>j\<in>set (p @ [k]). map_of (count_key k obj) j = Some (Num (count_list (p @ [k]) j))"
  proof
    fix j assume j: "j \<in> set (p @ [k])"
    show "map_of (count_key k obj) j = Some (Num (count_list (p @ [k]) j))"
    proof (cases "j = k")
      case True
      then show ?thesis
        using False by (simp add: ck map_of_obj_insert [OF knew d])
    next
      case neq: False
      then have "j \<in> set p" using j by auto
      then show ?thesis
        using neq m by (simp add: ck map_of_obj_insert [OF knew d])
    qed
  qed
  have 4: "map fst (count_key k obj) = firstOccurrences (p @ [k])"
    if "\<not> isArrayIndex k" and "map fst obj = firstOccurrences p"
    using that False by (simp add: ck obj_insert_plain firstOccurrences_snoc)
  show ?thesis
    using 1 2 3 4 by blast
qed

lemma fold_count_key:
  assumes "\<forall>k\<in>set ks. k \<notin> set objectPrototypeKeys"
  shows "distinct (map fst (fold count_key ks []))
    \<and> fst ` set (fold count_key ks []) = set ks
    \<and> (\<forall>j\<in>set ks. map_of (fold count_key ks []) j = Some (Num (count_list ks j)))
    \<and> ((\<forall>k\<in>set ks. \<not> isArrayIndex k) \<longrightarrow> map fst (fold count_key ks []) = firstOccurrences ks)"
  using assms
proof (induction ks rule: rev_induct)
  case Nil
  show ?case by (simp add: firstOccurrences_def)
next
  case (snoc k ks)
  then have ih: "distinct (map fst (fold count_key ks []))"
      "fst ` set (fold count_key ks []) = set ks"
      "\<forall>j\<in>set ks. map_of (fold count_key ks []) j = Some (Num (count_list ks j))"
      "(\<forall>k\<in>set ks. \<not> isArrayIndex k) \<longrightarrow> map fst (fold count_key ks []) = firstOccurrences ks"
    by simp_all
  have k: "k \<notin> set objectPrototypeKeys"
    using snoc.prems by simp
  note st = count_key_step [OF k ih(1,2,3)]
  have e: "fold count_key (ks @ [k]) [] = count_key k (fold count_key ks [])"
    by simp
  have idx: "(\<forall>j\<in>set (ks @ [k]). \<not> isArrayIndex j)
      \<longrightarrow> \<not> isArrayIndex k \<and> map fst (fold count_key ks []) = firstOccurrences ks"
    using ih(4) by simp
  show ?case
    unfolding e using st idx by blast
qed


lemma insort_key_order_cong:
  assumes "\<And>x y. f x \<le> f y \<longleftrightarrow> g x \<le> g y"
  shows "insort_key f x xs = insort_key g x xs"
  by (induction xs) (simp_all add: assms)

lemma sort_key_order_cong:
  assumes "\<And>x y. f x \<le> f y \<longleftrightarrow> g x \<le> g y"
  shows "sort_key f xs = sort_key g xs"
  by (induction xs) (simp_all add: insort_key_order_cong [of f g, OF assms])

lemma those_entry_count:
  "those (map entry_count (map (\<lambda>k. (k, Num (c k))) K)) = Some (map (\<lambda>k. (k, c k)) K)"
  by (induction K) simp_all

lemma stats_plain:
  assumes "\<forall>k\<in>set ks. k \<notin> set objectPrototypeKeys"
  shows "\<exists>K. distinct K \<and> set K = set ks
      \<and> ((\<forall>k\<in>set ks. \<not> isArrayIndex k) \<longrightarrow> K = firstOccurrences ks)
      \<and> stats ks = Some (sort_key (\<lambda>e. - int (snd e)) (map (\<lambda>k. (k, count_list ks k)) K))"
proof -
  let ?O = "fold count_key ks []"
  let ?K = "map fst ?O"
  from fold_count_key [OF assms]
  have d: "distinct ?K" and s: "fst ` set ?O = set ks"
    and m: "\<forall>j\<in>set ks. map_of ?O j = Some (Num (count_list ks j))"
    and f: "(\<forall>k\<in>set ks. \<not> isArrayIndex k) \<longrightarrow> ?K = firstOccurrences ks"
    by simp_all
  have "map (\<lambda>e. (fst e, Num (count_list ks (fst e)))) ?O = ?O"
  proof (rule map_idI)
    fix e assume e: "e \<in> set ?O"
    then have "fst e \<in> set ks"
      using s by auto
    then have "map_of ?O (fst e) = Some (Num (count_list ks (fst e)))"
      using m by simp
    moreover have "map_of ?O (fst e) = Some (snd e)"
      using d e by simp
    ultimately show "(fst e, Num (count_list ks (fst e))) = e"
      by (simp add: prod_eq_iff)
  qed
  then have O: "?O = map (\<lambda>k. (k, Num (count_list ks k))) ?K"
    by (simp add: comp_def)
  have "stats ks = Some (js_sort (\<lambda>a b. of_nat (snd b) - of_nat (snd a))
                           (map (\<lambda>k. (k, count_list ks k)) ?K))"
    unfolding stats_def by (subst O) (simp only: those_entry_count option.case)
  also have "js_sort (\<lambda>a b. of_nat (snd b) - of_nat (snd a)) (map (\<lambda>k. (k, count_list ks k)) ?K)
      = sort_key (\<lambda>e. - (of_nat (snd e) :: rat)) (map (\<lambda>k. (k, count_list ks k)) ?K)"
    by (rule js_sort_desc)
  also have "\<dots> = sort_key (\<lambda>e. - int (snd e)) (map (\<lambda>k. (k, count_list ks k)) ?K)"
    by (rule sort_key_order_cong) simp
  finally have st: "stats ks = Some (sort_key (\<lambda>e. - int (snd e)) (map (\<lambda>k. (k, count_list ks k)) ?K))" .
  have "set ?K = set ks"
    using s by simp
  with d f st show ?thesis
    by blast
qed


lemma count_list_map_key:
  "count_list (map key data) k = length (filter (\<lambda>x. key x = k) data)"
  by (induction data) auto

lemma stats_properties:
  assumes "\<forall>k\<in>set ks. k \<notin> set objectPrototypeKeys"
  shows "\<exists>st. stats ks = Some st
      \<and> distinct (map fst st) \<and> set (map fst st) = set ks
      \<and> (\<forall>e\<in>set st. snd e = count_list ks (fst e))
      \<and> sum_list (map snd st) = length ks
      \<and> sorted (rev (map snd st))
      \<and> ((\<forall>k\<in>set ks. \<not> isArrayIndex k) \<longrightarrow> st = spec_stats ks)"
proof -
  from stats_plain [OF assms] obtain K where
    K: "distinct K" "set K = set ks" "(\<forall>k\<in>set ks. \<not> isArrayIndex k) \<longrightarrow> K = firstOccurrences ks"
    and st: "stats ks = Some (sort_key (\<lambda>e. - int (snd e)) (map (\<lambda>k. (k, count_list ks k)) K))"
    by blast
  define es where "es = map (\<lambda>k. (k, count_list ks k)) K"
  define st' where "st' = sort_key (\<lambda>e. - int (snd e)) es"
  have ms: "mset st' = mset es"
    unfolding st'_def by (rule mset_sort)
  have fes: "map fst es = K"
    by (simp add: es_def comp_def)
  have ses: "map snd es = map (count_list ks) K"
    by (simp add: es_def comp_def)
  have "mset (map fst st') = mset (map fst es)"
    by (simp only: mset_map ms)
  then have mk: "mset (map fst st') = mset K"
    by (simp only: fes)
  have 1: "distinct (map fst st')"
    using mset_eq_imp_distinct_iff [OF mk] K(1) by simp
  have 2: "set (map fst st') = set ks"
    using mset_eq_setD [OF mk] K(2) by simp
  have 3: "\<forall>e\<in>set st'. snd e = count_list ks (fst e)"
  proof
    fix e assume "e \<in> set st'"
    then have "e \<in> set es"
      using mset_eq_setD [OF ms] by simp
    then show "snd e = count_list ks (fst e)"
      by (auto simp: es_def)
  qed
  have "sum_mset (mset (map snd st')) = sum_mset (mset (map snd es))"
    by (simp only: mset_map ms)
  then have "sum_list (map snd st') = sum_list (map snd es)"
    by (simp only: sum_mset_sum_list)
  also have "\<dots> = sum_list (map (count_list ks) K)"
    by (simp only: ses)
  also have "\<dots> = sum (count_list ks) (set K)"
    using K(1) by (rule sum_list_distinct_conv_sum_set)
  also have "\<dots> = length ks"
    unfolding K(2) by (rule sum_count_set) simp_all
  finally have 4: "sum_list (map snd st') = length ks" .
  have "sorted (map (\<lambda>e. - int (snd e)) st')"
    unfolding st'_def by (rule sorted_sort_key)
  then have "sorted_wrt (\<lambda>x y. snd y \<le> snd x) st'"
    by (simp add: sorted_wrt_map)
  then have 5: "sorted (rev (map snd st'))"
    by (simp add: sorted_wrt_rev sorted_wrt_map)
  have 6: "st' = spec_stats ks" if "\<forall>k\<in>set ks. \<not> isArrayIndex k"
    using that K(3) by (simp add: spec_stats_def st'_def es_def)
  have "stats ks = Some st'"
    using st by (simp only: st'_def es_def)
  then show ?thesis
    using 1 2 3 4 5 6 by blast
qed


lemma isArrayIndex_examples:
  "isArrayIndex ''1''" "isArrayIndex ''2''" "\<not> isArrayIndex ''A''" "\<not> isArrayIndex ''B''"
  "\<not> isArrayIndex ''flat''" "\<not> isArrayIndex ''house''"
  by (simp_all add: isArrayIndex_def isDigit_def digitsValue_def digitValue_def)

lemma digitsValue_examples: "digitsValue ''1'' = 1" "digitsValue ''2'' = 2"
  by (simp_all add: digitsValue_def digitValue_def)

lemma stats_numbered: "stats [''2'', ''1''] = Some [(''1'', 1), (''2'', 1)]"
  by (simp add: stats_def count_key_def obj_get_def obj_set_def objectPrototypeKeys_def
      isArrayIndex_examples digitsValue_examples js_sort_def)

lemma stats_flat_flat: "stats [''flat'', ''flat''] = Some [(''flat'', 2)]"
  by (simp add: stats_def count_key_def obj_get_def obj_set_def objectPrototypeKeys_def
      isArrayIndex_examples js_sort_def)

text \<open>
  C7, as the code has it.  Let \<open>key\<close> be the city (or the type) and let no listing of
  the collection have a key that is the name of a property inherited from
  \<^verbatim>\<open>Object.prototype\<close>.  Then, for an existing target, the city (type) statistics hold
  one pair for every distinct key of the whole collection; the count of a pair is the
  number of listings with that key; the counts add up to the size of the collection; and
  the pairs descend by count.  When moreover no key is an array index, pairs with equal
  counts are in the order in which their keys first occur, so that the statistics are
  the ones the specification words.
\<close>

theorem related_statistics:
  assumes "env_MOCK_DATA c = Some data"
    and "find (\<lambda>x. Some (id_l x) = parseInt s) data = Some t"
    and "(key, sel) = (city, cityStats) \<or> (key, sel) = (type_l, typeStats)"
    and "\<forall>x\<in>set data. key x \<notin> set objectPrototypeKeys"
  shows "\<exists>r st. getRelatedListingData fl c s = Inr \<lparr>status = 200, body = RelatedJson r ''mock''\<rparr>
      \<and> sel r = Some st
      \<and> distinct (map fst st) \<and> set (map fst st) = key ` set data
      \<and> (\<forall>e\<in>set st. snd e = length (filter (\<lambda>x. key x = fst e) data))
      \<and> sum_list (map snd st) = length data
      \<and> sorted (rev (map snd st))
      \<and> ((\<forall>x\<in>set data. \<not> isArrayIndex (key x)) \<longrightarrow> st = spec_stats (map key data))"
proof -
  have "\<forall>k\<in>set (map key data). k \<notin> set objectPrototypeKeys"
    using assms(4) by simp
  from stats_properties [OF this] obtain st where
    st: "stats (map key data) = Some st" "distinct (map fst st)" "set (map fst st) = set (map key data)"
      "\<forall>e\<in>set st. snd e = count_list (map key data) (fst e)"
      "sum_list (map snd st) = length (map key data)" "sorted (rev (map snd st))"
      "(\<forall>k\<in>set (map key data). \<not> isArrayIndex k) \<longrightarrow> st = spec_stats (map key data)"
    by blast
  have a: "set (map fst st) = key ` set data"
    using st(3) by simp
  have b: "\<forall>e\<in>set st. snd e = length (filter (\<lambda>x. key x = fst e) data)"
    using st(4) by (simp only: count_list_map_key)
  have c: "sum_list (map snd st) = length data"
    using st(5) by simp
  have d: "(\<forall>x\<in>set data. \<not> isArrayIndex (key x)) \<longrightarrow> st = spec_stats (map key data)"
    using st(7) by simp
  note found = getRelatedListingData_found [OF assms(1,2), where fl = fl]
  have sel: "sel \<lparr>listingId = s, listingCity = city t, listingType = type_l t,
            relatedInCity = take 3 (filter (\<lambda>x. city x = city t \<and> Some (id_l x) \<noteq> parseInt s) data),
            relatedByType = take 3 (filter (\<lambda>x. type_l x = type_l t \<and> Some (id_l x) \<noteq> parseInt s) data),
            similarPrice = take 3 (sort_key (\<lambda>x. \<bar>fl (price x - price t)\<bar>)
                                     (filter (\<lambda>x. Some (id_l x) \<noteq> parseInt s) data)),
            cityStats = stats (map city data), typeStats = stats (map type_l data)\<rparr> = Some st"
    using assms(3) st(1) by auto
  show ?thesis
    using found sel st(2,6) a b c d by blast
qed


theorem related_statistics_witness:
  "env_MOCK_DATA (mockCtx scenario) = Some scenario
   \<and> find (\<lambda>x. Some (id_l x) = parseInt ''1'') scenario = Some (mkListing 1 ''One'' ''A'' ''flat'' 100)
   \<and> ((city, cityStats) = (city, cityStats) \<or> (city, cityStats) = (type_l, typeStats))
   \<and> list_all (\<lambda>x. city x \<notin> set objectPrototypeKeys) scenario
   \<and> list_all (\<lambda>x. \<not> isArrayIndex (city x)) scenario
   \<and> (\<exists>r st. getRelatedListingData intDouble (mockCtx scenario) ''1''
                 = Inr \<lparr>status = 200, body = RelatedJson r ''mock''\<rparr>
          \<and> cityStats r = Some st
          \<and> sum_list (map snd st) = length scenario
          \<and> st = [(''A'', 2), (''B'', 1)])"
proof -
  have h: "env_MOCK_DATA (mockCtx scenario) = Some scenario"
    by (simp add: mockCtx_def)
  have p: "parseInt ''1'' = Some 1"
    by (simp add: parseInt_def isWhiteSpace_def isDigit_def digitsValue_def digitValue_def toDouble_small)
  have f: "find (\<lambda>x. Some (id_l x) = parseInt ''1'') scenario = Some (mkListing 1 ''One'' ''A'' ''flat'' 100)"
    by (simp add: p scenario_def mkListing_def)
  have k: "(city, cityStats) = (city, cityStats) \<or> (city, cityStats) = (type_l, typeStats)"
    by simp
  have pl: "\<forall>x\<in>set scenario. city x \<notin> set objectPrototypeKeys"
    by (simp add: scenario_def mkListing_def objectPrototypeKeys_def)
  have ni: "\<forall>x\<in>set scenario. \<not> isArrayIndex (city x)"
    by (simp add: scenario_def mkListing_def isArrayIndex_examples)
  have sp: "spec_stats (map city scenario) = [(''A'', 2), (''B'', 1)]"
    by (simp add: spec_stats_def firstOccurrences_def scenario_def mkListing_def)
  from related_statistics [OF h f k pl, where fl = intDouble] ni obtain r st where
    "getRelatedListingData intDouble (mockCtx scenario) ''1'' = Inr \<lparr>status = 200, body = RelatedJson r ''mock''\<rparr>"
    "cityStats r = Some st" "sum_list (map snd st) = length scenario"
    "st = spec_stats (map city scenario)"
    by blast
  then show ?thesis
    using h f k pl ni sp by (simp only: list_all_iff) blast
qed


text \<open>
  C7 as stated fails: for the cities \<open>2\<close> and \<open>1\<close>, one listing each, the city statistics
  list \<open>1\<close> before \<open>2\<close>, although \<open>2\<close> is met first: the counter object enumerates
  array-index keys in ascending numeric order.
\<close>

theorem statistics_tie_order_counterexample:
  "getRelatedListingData intDouble (mockCtx numberedCities) ''1''
     = Inr \<lparr>status = 200,
            body = RelatedJson
              \<lparr>listingId = ''1'', listingCity = ''2'', listingType = ''flat'',
               relatedInCity = [],
               relatedByType = [mkListing 2 ''Two'' ''1'' ''flat'' 200],
               similarPrice = [mkListing 2 ''Two'' ''1'' ''flat'' 200],
               cityStats = Some [(''1'', 1), (''2'', 1)],
               typeStats = Some [(''flat'', 2)]\<rparr> ''mock''\<rparr>
   \<and> spec_stats (map city numberedCities) = [(''2'', 1), (''1'', 1)]"
proof -
  have p: "parseInt ''1'' = Some 1"
    by (simp add: parseInt_def isWhiteSpace_def isDigit_def digitsValue_def digitValue_def toDouble_small)
  show ?thesis
    by (simp add: getRelatedListingData_def Let_def mockCtx_def numberedCities_def mkListing_def p
        stats_numbered stats_flat_flat js_sort_def spec_stats_def firstOccurrences_def)
qed

section \<open>The collection is only read\<close>

lemma fresh_view_alloc:
  assumes "take (length st0) st = st0"
  shows "fresh_view st0 xs (alloc xs st)"
proof -
  have "length (take (length st0) st) = length st0"
    using assms by simp
  then have "length st0 \<le> length st"
    by simp
  then show ?thesis
    using assms by (simp add: fresh_view_def alloc_def)
qed

lemma fresh_view_spread:
  assumes "mock < length st0"
  shows "fresh_view st0 (st0 ! mock) (array_spread mock st0)"
  unfolding array_spread_def by (rule fresh_view_alloc) simp

lemma fresh_view_filter:
  assumes "fresh_view st0 xs p"
  shows "fresh_view st0 (filter P xs) (array_filter P (fst p) (snd p))"
proof -
  have "snd p ! fst p = xs" and "take (length st0) (snd p) = st0"
    using assms by (simp_all add: fresh_view_def)
  then show ?thesis
    unfolding array_filter_def using fresh_view_alloc [of st0 "snd p" "filter P xs"] by simp
qed

lemma fresh_view_sort:
  assumes "fresh_view st0 xs p"
  shows "fresh_view st0 (js_sort cmp xs) (array_sort cmp (fst p) (snd p))"
  using assms by (simp add: fresh_view_def array_sort_def)

lemma fresh_view_if:
  assumes "fresh_view st0 xs p"
  shows "fresh_view st0 (if b then filter P xs else xs)
           (if b then array_filter P (fst p) (snd p) else p)"
  using assms fresh_view_filter [OF assms] by simp

lemma fresh_view_num:
  assumes "fresh_view st0 xs p"
  shows "fresh_view st0
           (case v of Some n \<Rightarrow> if n \<noteq> NaN then filter (P n) xs else xs | None \<Rightarrow> xs)
           (case v of Some n \<Rightarrow> if n \<noteq> NaN then array_filter (P n) (fst p) (snd p) else p
                    | None \<Rightarrow> p)"
  using assms fresh_view_filter [OF assms] by (simp split: option.splits)


lemma getListingsList_st_view:
  assumes "mock < length st0"
  shows "fresh_view st0 (sort_stage filters (filter_stage Number filters (st0 ! mock)))
           (getListingsList_st Number filters mock st0)"
proof -
  define q' where "q' = toLowerCase (trim (case q filters of None \<Rightarrow> [] | Some s \<Rightarrow> s))"
  define minPrice' where "minPrice' = numParam Number (minPrice filters)"
  define maxPrice' where "maxPrice' = numParam Number (maxPrice filters)"
  define beds' where "beds' = numParam Number (beds_f filters)"
  define c0 where "c0 = st0 ! mock"
  define c1 where "c1 =
    (if q' \<noteq> [] then filter (\<lambda>x. includes_str (toLowerCase (haystack x)) q') c0 else c0)"
  define c2 where "c2 =
    (if truthy (city_f filters) then filter (\<lambda>x. Some (city x) = city_f filters) c1 else c1)"
  define c3 where "c3 =
    (if truthy (type_f filters) then filter (\<lambda>x. Some (type_l x) = type_f filters) c2 else c2)"
  define c4 where "c4 =
    (case minPrice' of
       Some n \<Rightarrow> if n \<noteq> NaN then filter (\<lambda>x. num_ge (price x) n) c3 else c3
     | None \<Rightarrow> c3)"
  define c5 where "c5 =
    (case maxPrice' of
       Some n \<Rightarrow> if n \<noteq> NaN then filter (\<lambda>x. num_le (price x) n) c4 else c4
     | None \<Rightarrow> c4)"
  define c6 where "c6 =
    (case beds' of
       Some n \<Rightarrow> if n \<noteq> NaN then filter (\<lambda>x. num_ge (bedsOr0 x) n) c5 else c5
     | None \<Rightarrow> c5)"
  have fs: "filter_stage Number filters (st0 ! mock) = c6"
    unfolding filter_stage_def
    by (simp only: Let_def flip: q'_def minPrice'_def maxPrice'_def beds'_def c0_def)
       (simp only: flip: c1_def c2_def c3_def c4_def c5_def c6_def)
  obtain r0 s0 where e0: "array_spread mock st0 = (r0, s0)"
    by fastforce
  obtain r1 s1 where e1:
    "(if q' \<noteq> [] then array_filter (\<lambda>x. includes_str (toLowerCase (haystack x)) q') r0 s0
      else (r0, s0)) = (r1, s1)"
    by fastforce
  obtain r2 s2 where e2:
    "(if truthy (city_f filters) then array_filter (\<lambda>x. Some (city x) = city_f filters) r1 s1
      else (r1, s1)) = (r2, s2)"
    by fastforce
  obtain r3 s3 where e3:
    "(if truthy (type_f filters) then array_filter (\<lambda>x. Some (type_l x) = type_f filters) r2 s2
      else (r2, s2)) = (r3, s3)"
    by fastforce
  obtain r4 s4 where e4:
    "(case minPrice' of
       Some n \<Rightarrow> if n \<noteq> NaN then array_filter (\<lambda>x. num_ge (price x) n) r3 s3 else (r3, s3)
     | None \<Rightarrow> (r3, s3)) = (r4, s4)"
    by fastforce
  obtain r5 s5 where e5:
    "(case maxPrice' of
       Some n \<Rightarrow> if n \<noteq> NaN then array_filter (\<lambda>x. num_le (price x) n) r4 s4 else (r4, s4)
     | None \<Rightarrow> (r4, s4)) = (r5, s5)"
    by fastforce
  obtain r6 s6 where e6:
    "(case beds' of
       Some n \<Rightarrow> if n \<noteq> NaN then array_filter (\<lambda>x. num_ge (bedsOr0 x) n) r5 s5 else (r5, s5)
     | None \<Rightarrow> (r5, s5)) = (r6, s6)"
    by fastforce
  have v0: "fresh_view st0 c0 (r0, s0)"
    using fresh_view_spread [OF assms] by (simp only: e0 c0_def)
  have v1: "fresh_view st0 c1 (r1, s1)"
    unfolding c1_def e1 [symmetric]
    by (rule fresh_view_if [OF v0, unfolded fst_conv snd_conv])
  have v2: "fresh_view st0 c2 (r2, s2)"
    unfolding c2_def e2 [symmetric]
    by (rule fresh_view_if [OF v1, unfolded fst_conv snd_conv])
  have v3: "fresh_view st0 c3 (r3, s3)"
    unfolding c3_def e3 [symmetric]
    by (rule fresh_view_if [OF v2, unfolded fst_conv snd_conv])
  have v4: "fresh_view st0 c4 (r4, s4)"
    unfolding c4_def e4 [symmetric]
    by (rule fresh_view_num [OF v3, where P = "\<lambda>n x. num_ge (price x) n", unfolded fst_conv snd_conv])
  have v5: "fresh_view st0 c5 (r5, s5)"
    unfolding c5_def e5 [symmetric]
    by (rule fresh_view_num [OF v4, where P = "\<lambda>n x. num_le (price x) n", unfolded fst_conv snd_conv])
  have v6: "fresh_view st0 c6 (r6, s6)"
    unfolding c6_def e6 [symmetric]
    by (rule fresh_view_num [OF v5, where P = "\<lambda>n x. num_ge (bedsOr0 x) n", unfolded fst_conv snd_conv])
  have run: "getListingsList_st Number filters mock st0 =
      (if sort_f filters = Some ''price_asc''
          then array_sort (\<lambda>a b. price a - price b) r6 s6
        else if sort_f filters = Some ''price_desc''
          then array_sort (\<lambda>a b. price b - price a) r6 s6
        else if sort_f filters = Some ''area_desc''
          then array_sort (\<lambda>a b. areaOr0 b - areaOr0 a) r6 s6
        else if sort_f filters = Some ''newest''
          then array_sort (\<lambda>a b. createdTime b - createdTime a) r6 s6
        else (r6, s6))"
    unfolding getListingsList_st_def
    by (simp only: Let_def e0 prod.case flip: q'_def minPrice'_def maxPrice'_def beds'_def)
       (simp only: e1 e2 e3 e4 e5 e6 prod.case)
  show ?thesis
    unfolding run fs sort_stage_def
    using v6 fresh_view_sort [OF v6] by simp
qed


lemma getRelatedListingData_st_view:
  assumes "mock < length st0"
  shows "case getRelatedListingData_st fl listingIdNum listing mock st0 of
           ((ric, rbt, sp), st) \<Rightarrow>
             take (length st0) st = st0
           \<and> length st0 \<le> ric \<and> ric < length st
           \<and> length st0 \<le> rbt \<and> rbt < length st
           \<and> length st0 \<le> sp \<and> sp < length st
           \<and> st ! ric = take 3 (filter (\<lambda>x. city x = city listing \<and> Some (id_l x) \<noteq> listingIdNum)
                                   (st0 ! mock))
           \<and> st ! rbt = take 3 (filter (\<lambda>x. type_l x = type_l listing \<and> Some (id_l x) \<noteq> listingIdNum)
                                   (st0 ! mock))
           \<and> st ! sp = take 3 (js_sort
                           (\<lambda>a b. \<bar>fl (price a - price listing)\<bar> - \<bar>fl (price b - price listing)\<bar>)
                           (filter (\<lambda>x. Some (id_l x) \<noteq> listingIdNum) (st0 ! mock)))"
  using assms
  by (simp add: getRelatedListingData_st_def Let_def array_filter_def array_slice3_def
      array_sort_def alloc_def nth_append)


text \<open>
  C8.  Let the collection be the array at the address \<open>mock\<close> of a store.  The search
  leaves every array of that store as it was, the collection among them, with the same
  listings in the same order: what it sorts in place is an array of its own.  The array
  it returns sits at an address the store did not have, and holds what the response
  carries.  The same holds for the three lists of the related handler.
\<close>

theorem handlers_leave_collection:
  assumes "mock < length st0" and "env_MOCK_DATA c = Some (st0 ! mock)"
  shows "(case getListingsList_st Number filters mock st0 of
            (results, st) \<Rightarrow>
              take (length st0) st = st0 \<and> st ! mock = st0 ! mock
            \<and> length st0 \<le> results \<and> results < length st
            \<and> getListingsList Number c filters
                = Inr \<lparr>status = 200, body = ListingsJson (st ! results) ''mock''\<rparr>)
     \<and> (find (\<lambda>x. Some (id_l x) = parseInt s) (st0 ! mock) = Some listing \<longrightarrow>
          (case getRelatedListingData_st fl (parseInt s) listing mock st0 of
             ((ric, rbt, sp), st) \<Rightarrow>
               take (length st0) st = st0 \<and> st ! mock = st0 ! mock
             \<and> length st0 \<le> ric \<and> ric < length st
             \<and> length st0 \<le> rbt \<and> rbt < length st
             \<and> length st0 \<le> sp \<and> sp < length st
             \<and> (\<exists>r. getRelatedListingData fl c s
                        = Inr \<lparr>status = 200, body = RelatedJson r ''mock''\<rparr>
                    \<and> relatedInCity r = st ! ric \<and> relatedByType r = st ! rbt
                    \<and> similarPrice r = st ! sp)))"
proof (intro conjI impI)
  obtain results st where run: "getListingsList_st Number filters mock st0 = (results, st)"
    by fastforce
  from getListingsList_st_view [OF assms(1), where filters = filters and Number = Number]
  have v: "take (length st0) st = st0" "length st0 \<le> results" "results < length st"
      "st ! results = sort_stage filters (filter_stage Number filters (st0 ! mock))"
    by (simp_all add: run fresh_view_def)
  have "st ! mock = take (length st0) st ! mock"
    using assms(1) by simp
  then have m: "st ! mock = st0 ! mock"
    by (simp only: v(1))
  show "case getListingsList_st Number filters mock st0 of
            (results, st) \<Rightarrow>
              take (length st0) st = st0 \<and> st ! mock = st0 ! mock
            \<and> length st0 \<le> results \<and> results < length st
            \<and> getListingsList Number c filters
                = Inr \<lparr>status = 200, body = ListingsJson (st ! results) ''mock''\<rparr>"
    using v m by (simp add: run getListingsList_Some [OF assms(2)])
next
  assume f: "find (\<lambda>x. Some (id_l x) = parseInt s) (st0 ! mock) = Some listing"
  obtain ric rbt sp st where
    run: "getRelatedListingData_st fl (parseInt s) listing mock st0 = ((ric, rbt, sp), st)"
    by (cases "getRelatedListingData_st fl (parseInt s) listing mock st0") auto
  from getRelatedListingData_st_view [OF assms(1), where listingIdNum = "parseInt s" and listing = listing
      and fl = fl]
  have v: "take (length st0) st = st0"
      "length st0 \<le> ric" "ric < length st" "length st0 \<le> rbt" "rbt < length st"
      "length st0 \<le> sp" "sp < length st"
      "st ! ric = take 3 (filter (\<lambda>x. city x = city listing \<and> Some (id_l x) \<noteq> parseInt s) (st0 ! mock))"
      "st ! rbt = take 3 (filter (\<lambda>x. type_l x = type_l listing \<and> Some (id_l x) \<noteq> parseInt s) (st0 ! mock))"
      "st ! sp = take 3 (js_sort (\<lambda>a b. \<bar>fl (price a - price listing)\<bar> - \<bar>fl (price b - price listing)\<bar>)
                           (filter (\<lambda>x. Some (id_l x) \<noteq> parseInt s) (st0 ! mock)))"
    by (simp_all add: run)
  have "st ! mock = take (length st0) st ! mock"
    using assms(1) by simp
  then have m: "st ! mock = st0 ! mock"
    by (simp only: v(1))
  note found = getRelatedListingData_found [OF assms(2) f, where fl = fl]
  show "case getRelatedListingData_st fl (parseInt s) listing mock st0 of
             ((ric, rbt, sp), st) \<Rightarrow>
               take (length st0) st = st0 \<and> st ! mock = st0 ! mock
             \<and> length st0 \<le> ric \<and> ric < length st
             \<and> length st0 \<le> rbt \<and> rbt < length st
             \<and> length st0 \<le> sp \<and> sp < length st
             \<and> (\<exists>r. getRelatedListingData fl c s
                        = Inr \<lparr>status = 200, body = RelatedJson r ''mock''\<rparr>
                    \<and> relatedInCity r = st ! ric \<and> relatedByType r = st ! rbt
                    \<and> similarPrice r = st ! sp)"
    using v(1-7) m by (simp add: run found v(8-10)
        js_sort_asc [where f = "\<lambda>x. \<bar>fl (price x - price listing)\<bar>"])
qed

theorem handlers_leave_collection_witness:
  "(0::nat) < length [scenario]
   \<and> env_MOCK_DATA (mockCtx scenario) = Some ([scenario] ! 0)
   \<and> getListingsList_st decimalNumber (noFilters\<lparr>sort_f := Some ''price_asc''\<rparr>) 0 [scenario]
       = (1, [scenario,
              [mkListing 1 ''One'' ''A'' ''flat'' 100, mkListing 3 ''Three'' ''B'' ''flat'' 150,
               mkListing 2 ''Two'' ''A'' ''house'' 200]])
   \<and> getListingsList decimalNumber (mockCtx scenario) (noFilters\<lparr>sort_f := Some ''price_asc''\<rparr>)
       = Inr \<lparr>status = 200,
              body = ListingsJson
                [mkListing 1 ''One'' ''A'' ''flat'' 100, mkListing 3 ''Three'' ''B'' ''flat'' 150,
                 mkListing 2 ''Two'' ''A'' ''house'' 200] ''mock''\<rparr>"
proof -
  have h1: "(0::nat) < length [scenario]"
    by simp
  have h2: "env_MOCK_DATA (mockCtx scenario) = Some ([scenario] ! 0)"
    by (simp add: mockCtx_def)
  have run: "getListingsList_st decimalNumber (noFilters\<lparr>sort_f := Some ''price_asc''\<rparr>) 0 [scenario]
       = (1, [scenario,
              [mkListing 1 ''One'' ''A'' ''flat'' 100, mkListing 3 ''Three'' ''B'' ''flat'' 150,
               mkListing 2 ''Two'' ''A'' ''house'' 200]])"
    by code_simp
  show ?thesis
    using handlers_leave_collection [OF h1 h2, where Number = decimalNumber
        and filters = "noFilters\<lparr>sort_f := Some ''price_asc''\<rparr>"]
      h1 h2
    by (simp add: run)
qed

end
